(* ===== verification/Prelude.thy ===== *)
theory Prelude
  imports Complex_Main "HOL-Library.Word"
begin

text \<open>
  Shared vocabulary of the rover development. The two source files
  (\<open>src/code/perception.py\<close> and \<open>src/code/decision.py\<close>) operate on numpy arrays;
  this theory fixes how those arrays and the few numpy primitives the code calls are
  read in HOL:
  \<^item> a one-dimensional float array is a \<open>real list\<close>; a pair of equal-length arrays
    \<open>(x, y)\<close> is a pixel set in some frame;
  \<^item> a two-dimensional 0/1 array (a thresholded image) is a \<open>bool list list\<close>
    of rows, an RGB frame of \<open>uint8\<close> values a list of rows of \<open>8 word\<close> triples;
  \<^item> \<open>np.clip\<close>, \<open>np.int_\<close>, \<open>nonzero\<close>, \<open>any\<close>, \<open>np.mean\<close>,
    \<open>np.average\<close> and \<open>np.argmin\<close> are written out as HOL functions, each with the
    lemmas the component theories share;
  \<^item> what numpy would turn into an exception or a NaN is a value of \<open>py_fault\<close>.
  The collections \<open>wf_simps\<close> (lengths and shapes) and \<open>frame_simps\<close> (fields an
  operation leaves alone) carry the component proofs.
\<close>

named_theorems wf_simps "lengths and shapes of the arrays an operation returns"
named_theorems frame_simps "fields of the rover state an operation does not write"

type_synonym u8 = "8 word"
type_synonym pixel = "u8 \<times> u8 \<times> u8"
type_synonym image = "pixel list list"
type_synonym mask = "bool list list"

text \<open>
  The world map array: its \<open>shape[0]\<close> and its cells, indexed \<open>[y, x, channel]\<close>
  as in the source.
\<close>

record 'c grid =
  grid_size :: int
  grid_cells :: "int \<Rightarrow> int \<Rightarrow> nat \<Rightarrow> 'c"

text \<open>What numpy or Python would do instead of returning a number.\<close>

datatype py_fault =
    TypeError          \<comment> \<open>arithmetic on \<open>None\<close>; \<open>np.average\<close> with weights of another shape\<close>
  | ZeroDivisionError  \<comment> \<open>\<open>np.average\<close> with weights that sum to zero\<close>
  | NaNResult          \<comment> \<open>a NaN produced by \<open>np.mean\<close> of nothing or an infinite weight\<close>

text \<open>A raise aborts the rest of the computation: the bind of the sum type.\<close>

definition py_bind :: "py_fault + 'a \<Rightarrow> ('a \<Rightarrow> py_fault + 'b) \<Rightarrow> py_fault + 'b" where
  "py_bind x f = (case x of Inl e \<Rightarrow> Inl e | Inr a \<Rightarrow> f a)"

lemma py_bind_simps [simp]:
  "py_bind (Inl e) f = Inl e"
  "py_bind (Inr a) f = f a"
  by (simp_all add: py_bind_def)

lemma py_bind_Inr_iff: "py_bind x f = Inr b \<longleftrightarrow> (\<exists>a. x = Inr a \<and> f a = Inr b)"
  by (cases x) simp_all

section \<open>numpy primitives\<close>

definition np_clip :: "'a::linorder \<Rightarrow> 'a \<Rightarrow> 'a \<Rightarrow> 'a" where
  "np_clip a lo hi = min (max a lo) hi"

text \<open>\<open>np.int_\<close> on a float casts to a C integer: it truncates towards zero.\<close>

definition np_int :: "real \<Rightarrow> int" where
  "np_int r = (if 0 \<le> r then \<lfloor>r\<rfloor> else \<lceil>r\<rceil>)"

text \<open>
  \<open>a.nonzero()\<close> of a two-dimensional array: the (row, column) index pairs of the
  non-zero entries in row-major (scan) order.
\<close>

fun nonzero_from :: "nat \<Rightarrow> mask \<Rightarrow> (nat \<times> nat) list" where
  "nonzero_from i [] = []"
| "nonzero_from i (row # rows) =
     map (\<lambda>j. (i, j)) (filter (\<lambda>j. row ! j) [0..<length row]) @ nonzero_from (Suc i) rows"

definition nonzero :: "mask \<Rightarrow> (nat \<times> nat) list" where
  "nonzero m = nonzero_from 0 m"

definition np_any :: "mask \<Rightarrow> bool" where
  "np_any m = list_ex (list_ex (\<lambda>b. b)) m"

text \<open>\<open>a.shape[1]\<close>: the number of columns (the length of the first row).\<close>

definition shape1 :: "'a list list \<Rightarrow> nat" where
  "shape1 m = (case m of [] \<Rightarrow> 0 | row # _ \<Rightarrow> length row)"

text \<open>A 2-D array of shape \<open>(rows, cols)\<close>: \<open>rows\<close> rows of \<open>cols\<close> entries each.\<close>

definition wf_image :: "nat \<Rightarrow> nat \<Rightarrow> 'a list list \<Rightarrow> bool" where
  "wf_image rows cols m \<longleftrightarrow> length m = rows \<and> list_all (\<lambda>row. length row = cols) m"

definition np_mean :: "real list \<Rightarrow> py_fault + real" where
  "np_mean xs = (if xs = [] then Inl NaNResult else Inr (sum_list xs / real (length xs)))"

text \<open>
  \<open>np.average(a, weights=w)\<close> for finite weights: the weighted sum over the sum of
  the weights. numpy checks the shapes first (\<open>TypeError\<close>: "Axis must be specified when
  shapes of a and weights differ"), then the weight sum (\<open>ZeroDivisionError\<close>: "Weights sum
  to zero, can't be normalized").
\<close>

definition np_average :: "real list \<Rightarrow> real list \<Rightarrow> py_fault + real" where
  "np_average xs ws =
     (if length xs \<noteq> length ws then Inl TypeError
      else if sum_list ws = 0 then Inl ZeroDivisionError
      else Inr (sum_list (map2 (*) xs ws) / sum_list ws))"

text \<open>\<open>np.argmin\<close>: the index of the first least element, by a left-to-right scan.\<close>

fun argmin_from :: "nat \<Rightarrow> nat \<Rightarrow> real \<Rightarrow> real list \<Rightarrow> nat" where
  "argmin_from i best v [] = best"
| "argmin_from i best v (x # xs) =
     (if x < v then argmin_from (Suc i) i x xs else argmin_from (Suc i) best v xs)"

definition np_argmin :: "real list \<Rightarrow> nat" where
  "np_argmin xs = (case xs of [] \<Rightarrow> 0 | x # rest \<Rightarrow> argmin_from 1 0 x rest)"

section \<open>Shared lemmas\<close>

lemma np_clip_bounds [simp]:
  "lo \<le> hi \<Longrightarrow> lo \<le> np_clip a lo hi \<and> np_clip a lo hi \<le> hi"
  by (auto simp: np_clip_def)

lemma np_clip_abs:
  "0 \<le> (c::real) \<Longrightarrow> \<bar>np_clip a (- c) c\<bar> \<le> c"
  by (auto simp: np_clip_def)

lemma np_clip_id: "lo \<le> a \<Longrightarrow> a \<le> hi \<Longrightarrow> np_clip a lo hi = a"
  by (simp add: np_clip_def)

lemma np_int_nonneg: "0 \<le> r \<Longrightarrow> np_int r = \<lfloor>r\<rfloor>"
  by (simp add: np_int_def)

lemma length_map2_same [wf_simps]:
  "length xs = length ys \<Longrightarrow> length (map2 f xs ys) = length xs"
  by simp

lemma nth_map2_same:
  "i < length xs \<Longrightarrow> length xs = length ys \<Longrightarrow> map2 f xs ys ! i = f (xs ! i) (ys ! i)"
  by simp

lemma set_nonzero_from:
  "(a, b) \<in> set (nonzero_from i m) \<longleftrightarrow>
     i \<le> a \<and> a - i < length m \<and> b < length (m ! (a - i)) \<and> m ! (a - i) ! b"
proof (induction m arbitrary: i)
  case Nil
  then show ?case by simp
next
  case (Cons row rows)
  show ?case
  proof (cases "a = i")
    case True
    then show ?thesis using Cons.IH [of "Suc i"] by auto
  next
    case False
    then have "a - i = Suc (a - Suc i) \<or> a < i"
      by arith
    then show ?thesis using Cons.IH [of "Suc i"] False by auto
  qed
qed

lemma set_nonzero:
  "(a, b) \<in> set (nonzero m) \<longleftrightarrow> a < length m \<and> b < length (m ! a) \<and> m ! a ! b"
  by (simp add: nonzero_def set_nonzero_from)

lemma nonzero_from_Nil_iff: "nonzero_from i m = [] \<longleftrightarrow> \<not> list_ex (list_ex (\<lambda>b. b)) m"
proof (induction m arbitrary: i)
  case Nil
  then show ?case by simp
next
  case (Cons row rows)
  have "filter (\<lambda>j. row ! j) [0..<length row] = [] \<longleftrightarrow> \<not> list_ex (\<lambda>b. b) row"
    by (auto simp: filter_empty_conv list_ex_iff in_set_conv_nth)
  with Cons.IH show ?case by simp
qed

lemma nonzero_Nil_iff: "nonzero m = [] \<longleftrightarrow> \<not> np_any m"
  by (simp add: nonzero_def np_any_def nonzero_from_Nil_iff)

lemma wf_image_map [wf_simps]: "wf_image rows cols m \<Longrightarrow> wf_image rows cols (map (map f) m)"
  by (simp add: wf_image_def list_all_iff)

lemma wf_image_map2 [wf_simps]:
  "wf_image rows cols a \<Longrightarrow> wf_image rows cols b \<Longrightarrow> wf_image rows cols (map2 (map2 f) a b)"
  by (auto simp: wf_image_def list_all_length)

lemma wf_image_shape1: "wf_image rows cols m \<Longrightarrow> 0 < rows \<Longrightarrow> shape1 m = cols"
  by (cases m) (simp_all add: wf_image_def shape1_def)

lemma wf_image_Nil [simp]: "wf_image 0 cols m \<longleftrightarrow> m = []"
  by (auto simp: wf_image_def)

end
