(* ===== verification/Geometry.thy ===== *)
theory Geometry
  imports Prelude
begin

text \<open>
  The geometric transform library of \<open>src/code/perception.py\<close> (lines 26--107):
  image pixels to rover-centric coordinates (\<open>rover_coords\<close>), rover coordinates to
  polar form (\<open>to_polar_coords\<close>, with numpy's \<open>arctan2\<close>), and rover coordinates to
  world-grid cells (\<open>rotate_pix\<close>, \<open>translate_pix\<close>, \<open>pix_to_world\<close>). Each
  function keeps the source's signature: separate x and y arrays in, a pair of arrays
  out. Floats are read as reals; the lemmas show the pipeline keeps x and y arrays of
  equal length, that polar form is a lossless change of representation, that a
  rotation composes and preserves distance, and that world cells always land inside
  the grid (the clamping law).
\<close>

section \<open>Definitions\<close>

text \<open>
  \<open>rover_coords\<close>: row \<open>r\<close> and column \<open>c\<close> of a non-zero pixel give
  \<open>x = -(r - H)\<close> (forward) and \<open>y = -(c - W / 2)\<close> (left); \<open>W / 2\<close> is a
  float division in Python 3. \<open>.astype(np.float)\<close> is read as the conversion to a
  float it was in numpy before 1.24, which removed the alias \<open>np.float\<close>.
\<close>

definition rover_coords :: "mask \<Rightarrow> real list \<times> real list" where
  "rover_coords binary_img =
     (let idx = nonzero binary_img;
          ypos = map fst idx;
          xpos = map snd idx
      in (map (\<lambda>p. - (real p - real (length binary_img))) ypos,
          map (\<lambda>p. - (real p - real (shape1 binary_img) / 2)) xpos))"

text \<open>
  numpy's \<open>arctan2(y, x)\<close>, the angle of the point \<open>(x, y)\<close> in \<open>(-pi, pi]\<close>,
  by its usual case split; \<open>arctan2(0, 0) = 0\<close>.
\<close>

definition arctan2 :: "real \<Rightarrow> real \<Rightarrow> real" where
  "arctan2 y x =
     (if 0 < x then arctan (y / x)
      else if x < 0 then (if 0 \<le> y then arctan (y / x) + pi else arctan (y / x) - pi)
      else if 0 < y then pi / 2
      else if y < 0 then - (pi / 2)
      else 0)"

definition to_polar_coords :: "real list \<Rightarrow> real list \<Rightarrow> real list \<times> real list" where
  "to_polar_coords x_pixel y_pixel =
     (map2 (\<lambda>x y. sqrt (x\<^sup>2 + y\<^sup>2)) x_pixel y_pixel,
      map2 (\<lambda>x y. arctan2 y x) x_pixel y_pixel)"

definition rotate_pix :: "real list \<Rightarrow> real list \<Rightarrow> real \<Rightarrow> real list \<times> real list" where
  "rotate_pix xpix ypix yaw =
     (let yaw_rad = yaw * pi / 180
      in (map2 (\<lambda>x y. x * cos yaw_rad - y * sin yaw_rad) xpix ypix,
          map2 (\<lambda>x y. x * sin yaw_rad + y * cos yaw_rad) xpix ypix))"

definition translate_pix ::
  "real list \<Rightarrow> real list \<Rightarrow> real \<Rightarrow> real \<Rightarrow> real \<Rightarrow> real list \<times> real list" where
  "translate_pix xpix_rot ypix_rot xpos ypos scale =
     (map (\<lambda>x. x / scale + xpos) xpix_rot, map (\<lambda>y. y / scale + ypos) ypix_rot)"

definition pix_to_world ::
  "real list \<Rightarrow> real list \<Rightarrow> real \<Rightarrow> real \<Rightarrow> real \<Rightarrow> int \<Rightarrow> real \<Rightarrow> int list \<times> int list" where
  "pix_to_world xpix ypix xpos ypos yaw world_size scale =
     (let (xpix_rot, ypix_rot) = rotate_pix xpix ypix yaw;
          (xpix_tran, ypix_tran) = translate_pix xpix_rot ypix_rot xpos ypos scale
      in (map (\<lambda>v. np_clip (np_int v) 0 (world_size - 1)) xpix_tran,
          map (\<lambda>v. np_clip (np_int v) 0 (world_size - 1)) ypix_tran))"

text \<open>
  The pointwise reading of \<open>pix_to_world\<close>, the specification of one pixel: rotate
  the rover-frame point by the yaw, scale it down, move it to the rover's position,
  truncate and clamp each coordinate to the grid.
\<close>

definition world_cell ::
  "real \<Rightarrow> real \<Rightarrow> real \<Rightarrow> int \<Rightarrow> real \<Rightarrow> real \<times> real \<Rightarrow> int \<times> int" where
  "world_cell xpos ypos yaw world_size scale p =
     (let \<theta> = yaw * pi / 180; (x, y) = p;
          cell = (\<lambda>v. np_clip (np_int v) 0 (world_size - 1))
      in (cell ((x * cos \<theta> - y * sin \<theta>) / scale + xpos),
          cell ((x * sin \<theta> + y * cos \<theta>) / scale + ypos)))"

section \<open>Shapes\<close>

lemma rover_coords_length [wf_simps]:
  "length (fst (rover_coords m)) = length (nonzero m)"
  "length (snd (rover_coords m)) = length (nonzero m)"
  by (simp_all add: rover_coords_def Let_def)

lemma to_polar_coords_length [wf_simps]:
  "length xs = length ys \<Longrightarrow> length (fst (to_polar_coords xs ys)) = length xs"
  "length xs = length ys \<Longrightarrow> length (snd (to_polar_coords xs ys)) = length xs"
  by (simp_all add: to_polar_coords_def)

lemma rotate_pix_length [wf_simps]:
  "length xs = length ys \<Longrightarrow> length (fst (rotate_pix xs ys yaw)) = length xs"
  "length xs = length ys \<Longrightarrow> length (snd (rotate_pix xs ys yaw)) = length xs"
  by (simp_all add: rotate_pix_def Let_def)

lemma pix_to_world_length [wf_simps]:
  "length xs = length ys \<Longrightarrow> length (fst (pix_to_world xs ys px py yaw ws sc)) = length xs"
  "length xs = length ys \<Longrightarrow> length (snd (pix_to_world xs ys px py yaw ws sc)) = length xs"
  by (simp_all add: pix_to_world_def rotate_pix_def translate_pix_def Let_def)

lemma rover_coords_nth:
  assumes "k < length (nonzero m)"
  shows "fst (rover_coords m) ! k = real (length m) - real (fst (nonzero m ! k))"
    and "snd (rover_coords m) ! k = real (shape1 m) / 2 - real (snd (nonzero m ! k))"
  using assms by (simp_all add: rover_coords_def Let_def)

section \<open>Polar coordinates\<close>

lemma sqrt_sum_sq_factor:
  assumes "x \<noteq> 0"
  shows "sqrt (x\<^sup>2 + y\<^sup>2) = \<bar>x\<bar> * sqrt (1 + (y / x)\<^sup>2)"
proof -
  have "x\<^sup>2 + y\<^sup>2 = x\<^sup>2 * (1 + (y / x)\<^sup>2)"
    using assms by (simp add: field_simps power2_eq_square)
  then show ?thesis by (simp add: real_sqrt_mult)
qed

lemma polar_point_roundtrip:
  "sqrt (x\<^sup>2 + y\<^sup>2) * cos (arctan2 y x) = x \<and> sqrt (x\<^sup>2 + y\<^sup>2) * sin (arctan2 y x) = y"
proof (cases "x = 0")
  case True
  then show ?thesis
    by (cases y "0::real" rule: linorder_cases) (simp_all add: arctan2_def)
next
  case False
  let ?t = "y / x"
  have pos: "0 < sqrt (1 + ?t\<^sup>2)" by (simp add: add_pos_nonneg)
  have c: "sqrt (x\<^sup>2 + y\<^sup>2) * cos (arctan ?t) = \<bar>x\<bar>"
    using False pos by (simp add: sqrt_sum_sq_factor cos_arctan)
  have s: "sqrt (x\<^sup>2 + y\<^sup>2) * sin (arctan ?t) = \<bar>x\<bar> * ?t"
    using False pos by (simp add: sqrt_sum_sq_factor sin_arctan)
  show ?thesis
  proof (cases "0 < x")
    case True
    with c s show ?thesis by (simp add: arctan2_def)
  next
    case neg: False
    with \<open>x \<noteq> 0\<close> have "x < 0" by simp
    with c s False show ?thesis
      by (auto simp: arctan2_def cos_add sin_add cos_diff sin_diff)
  qed
qed

lemma arctan2_bounds: "- pi < arctan2 y x \<and> arctan2 y x \<le> pi"
  using arctan_bounded [of "y / x"] pi_gt_zero
  by (auto simp: arctan2_def divide_nonneg_neg divide_neg_neg zero_le_divide_iff)

lemma arctan2_forward: "0 < x \<Longrightarrow> - (pi / 2) < arctan2 y x \<and> arctan2 y x < pi / 2"
  using arctan_bounded [of "y / x"] by (simp add: arctan2_def)

section \<open>Rotation\<close>

lemma rotate_point_compose:
  fixes a b x y :: real
  shows "(x * cos a - y * sin a) * cos b - (x * sin a + y * cos a) * sin b
           = x * cos (a + b) - y * sin (a + b)"
    and "(x * cos a - y * sin a) * sin b + (x * sin a + y * cos a) * cos b
           = x * sin (a + b) + y * cos (a + b)"
  by (simp_all add: cos_add sin_add algebra_simps)

lemma rotate_point_norm:
  fixes a x y :: real
  shows "(x * cos a - y * sin a)\<^sup>2 + (x * sin a + y * cos a)\<^sup>2 = x\<^sup>2 + y\<^sup>2"
proof -
  have "(x * cos a - y * sin a)\<^sup>2 + (x * sin a + y * cos a)\<^sup>2
          = (x\<^sup>2 + y\<^sup>2) * ((sin a)\<^sup>2 + (cos a)\<^sup>2)"
    by (simp only: power2_eq_square) algebra
  then show ?thesis by simp
qed

lemma map2_fst_zip:
  "length xs = length ys \<Longrightarrow> map2 (\<lambda>x y. x) xs ys = xs"
  "length xs = length ys \<Longrightarrow> map2 (\<lambda>x y. y) xs ys = ys"
  by (induction xs ys rule: list_induct2) simp_all

section \<open>World cells\<close>

lemma world_cell_bounds:
  assumes "1 \<le> world_size"
  shows "0 \<le> fst (world_cell px py yaw world_size sc p) \<and> fst (world_cell px py yaw world_size sc p) < world_size"
    and "0 \<le> snd (world_cell px py yaw world_size sc p) \<and> snd (world_cell px py yaw world_size sc p) < world_size"
  using assms np_clip_bounds [of 0 "world_size - 1"]
  by (auto simp: world_cell_def Let_def split: prod.splits)

lemma rover_coords_ahead:
  assumes "x \<in> set (fst (rover_coords m))"
  shows "1 \<le> x \<and> x \<le> real (length m)"
proof -
  from assms obtain k where k: "k < length (nonzero m)" and x: "x = fst (rover_coords m) ! k"
    by (auto simp: in_set_conv_nth wf_simps)
  obtain a b where ab: "nonzero m ! k = (a, b)" by (cases "nonzero m ! k")
  with k have "(a, b) \<in> set (nonzero m)" by (metis nth_mem)
  then have "a < length m" by (simp add: set_nonzero)
  with x k ab show ?thesis by (simp add: rover_coords_nth)
qed

lemma polar_dist_ge_x: "x \<le> sqrt (x\<^sup>2 + y\<^sup>2)"
  by (metis abs_ge_self le_add_same_cancel1 order_trans real_sqrt_abs real_sqrt_le_mono zero_le_power2)

lemma rover_polar_ranges:
  assumes "k < length (nonzero m)"
  defines "p \<equiv> to_polar_coords (fst (rover_coords m)) (snd (rover_coords m))"
  shows "1 \<le> fst p ! k \<and> - (pi / 2) < snd p ! k \<and> snd p ! k < pi / 2"
proof -
  let ?x = "fst (rover_coords m) ! k" and ?y = "snd (rover_coords m) ! k"
  have "?x \<in> set (fst (rover_coords m))" using assms(1) by (simp add: wf_simps)
  then have x: "1 \<le> ?x" by (simp add: rover_coords_ahead)
  have "fst p ! k = sqrt (?x\<^sup>2 + ?y\<^sup>2)" and "snd p ! k = arctan2 ?y ?x"
    using assms by (simp_all add: to_polar_coords_def wf_simps)
  moreover have "1 \<le> sqrt (?x\<^sup>2 + ?y\<^sup>2)"
    using x polar_dist_ge_x [of ?x ?y] by linarith
  ultimately show ?thesis using x arctan2_forward [of ?x ?y] by simp
qed

lemma pix_to_world_nth:
  assumes "length xs = length ys" and "k < length xs"
  shows "(fst (pix_to_world xs ys xpos ypos yaw ws sc) ! k, snd (pix_to_world xs ys xpos ypos yaw ws sc) ! k)
           = world_cell xpos ypos yaw ws sc (xs ! k, ys ! k)"
  using assms by (simp add: pix_to_world_def rotate_pix_def translate_pix_def world_cell_def Let_def)

section \<open>Properties of the transform library\<close>

text \<open>
  C24. Polar form is a lossless change of representation: for x and y arrays of equal
  length, \<open>to_polar_coords\<close> followed by \<open>(d cos a, d sin a)\<close> gives the arrays back.
\<close>

theorem to_polar_coords_roundtrip:
  assumes "length xs = length ys"
  shows "map2 (\<lambda>d a. d * cos a) (fst (to_polar_coords xs ys)) (snd (to_polar_coords xs ys)) = xs
       \<and> map2 (\<lambda>d a. d * sin a) (fst (to_polar_coords xs ys)) (snd (to_polar_coords xs ys)) = ys"
  using assms
proof (induction xs ys rule: list_induct2)
  case Nil
  then show ?case by (simp add: to_polar_coords_def)
next
  case (Cons x xs y ys)
  then show ?case by (simp add: to_polar_coords_def polar_point_roundtrip)
qed

theorem to_polar_coords_roundtrip_witness:
  "length [3::real, 0] = length [0::real, -2]
   \<and> map2 (\<lambda>d a. d * cos a) (fst (to_polar_coords [3, 0] [0, -2])) (snd (to_polar_coords [3, 0] [0, -2])) = [3, 0]
   \<and> map2 (\<lambda>d a. d * sin a) (fst (to_polar_coords [3, 0] [0, -2])) (snd (to_polar_coords [3, 0] [0, -2])) = [0, -2]"
  using to_polar_coords_roundtrip [of "[3, 0]" "[0, -2]"] by simp

text \<open>
  C25. The clamping law: for a grid of at least one cell, every world coordinate
  \<open>pix_to_world\<close> returns lies in \<open>[0, world_size - 1]\<close>, whatever the input
  pixels, pose and yaw, so indexing the world map with them never leaves the grid and
  never wraps to a negative index.
\<close>

theorem pix_to_world_in_grid:
  assumes "1 \<le> world_size"
  shows "(\<forall>v \<in> set (fst (pix_to_world xs ys xpos ypos yaw world_size scale)). 0 \<le> v \<and> v < world_size)
       \<and> (\<forall>v \<in> set (snd (pix_to_world xs ys xpos ypos yaw world_size scale)). 0 \<le> v \<and> v < world_size)"
  using assms np_clip_bounds [of 0 "world_size - 1"]
  by (auto simp: pix_to_world_def rotate_pix_def translate_pix_def Let_def)

theorem pix_to_world_in_grid_witness:
  "1 \<le> (200::int)
   \<and> list_all (\<lambda>v. 0 \<le> v \<and> v < 200) (fst (pix_to_world [3000, 2] [-40, 7] 5 7 45 200 10))
   \<and> list_all (\<lambda>v. 0 \<le> v \<and> v < 200) (snd (pix_to_world [3000, 2] [-40, 7] 5 7 45 200 10))"
  using pix_to_world_in_grid [of 200 "[3000, 2]" "[-40, 7]" 5 7 45 10]
  by (simp add: list_all_iff)

text \<open>
  C26. The vectorised \<open>pix_to_world\<close> is the pixel-by-pixel map \<open>world_cell\<close>:
  zipping its two output arrays gives, for each input pixel in order, that pixel's
  world cell. This is the refinement of the array code by the one-point specification.
\<close>

theorem pix_to_world_pointwise:
  assumes "length xs = length ys"
  shows "zip (fst (pix_to_world xs ys xpos ypos yaw ws sc)) (snd (pix_to_world xs ys xpos ypos yaw ws sc))
           = map (world_cell xpos ypos yaw ws sc) (zip xs ys)"
  using assms
proof (induction xs ys rule: list_induct2)
  case Nil
  then show ?case by (simp add: pix_to_world_def rotate_pix_def translate_pix_def)
next
  case (Cons x xs y ys)
  then show ?case
    by (simp add: pix_to_world_def rotate_pix_def translate_pix_def world_cell_def Let_def)
qed

theorem pix_to_world_pointwise_witness:
  "length [1::real, 2] = length [0::real, 4]
   \<and> zip (fst (pix_to_world [1, 2] [0, 4] 10 20 0 200 1)) (snd (pix_to_world [1, 2] [0, 4] 10 20 0 200 1))
       = map (world_cell 10 20 0 200 1) (zip [1, 2] [0, 4])"
  using pix_to_world_pointwise [of "[1, 2]" "[0, 4]" 10 20 0 200 1] by simp

text \<open>
  C27. Rotation laws: rotating by 0 degrees is the identity, rotating by 360 degrees
  is rotating by 0, and rotating by \<open>a\<close> then by \<open>b\<close> is rotating by \<open>a + b\<close>.
\<close>

lemma rotate_pix_compose:
  assumes "length xs = length ys"
  shows "rotate_pix (fst (rotate_pix xs ys a)) (snd (rotate_pix xs ys a)) b = rotate_pix xs ys (a + b)"
proof -
  have e: "(a + b) * pi / 180 = a * pi / 180 + b * pi / 180"
    by (simp add: field_simps)
  from assms show ?thesis
  proof (induction xs ys rule: list_induct2)
    case Nil
    then show ?case by (simp add: rotate_pix_def)
  next
    case (Cons x xs y ys)
    then show ?case by (simp add: rotate_pix_def Let_def rotate_point_compose e)
  qed
qed

theorem rotate_pix_laws:
  assumes "length xs = length ys"
  shows "rotate_pix xs ys 0 = (xs, ys)
       \<and> rotate_pix xs ys 360 = rotate_pix xs ys 0
       \<and> rotate_pix (fst (rotate_pix xs ys a)) (snd (rotate_pix xs ys a)) b = rotate_pix xs ys (a + b)"
proof -
  have "(360::real) * pi / 180 = 2 * pi" by simp
  then have full: "rotate_pix xs ys 360 = rotate_pix xs ys 0"
    by (simp add: rotate_pix_def)
  have zero: "rotate_pix xs ys 0 = (xs, ys)"
    using assms by (simp add: rotate_pix_def map2_fst_zip)
  from zero full rotate_pix_compose [OF assms] show ?thesis by blast
qed

theorem rotate_pix_laws_witness:
  "length [1::real] = length [2::real] \<and> rotate_pix [1] [2] 0 = ([1], [2])
   \<and> rotate_pix [1] [2] 360 = rotate_pix [1] [2] 0
   \<and> rotate_pix (fst (rotate_pix [1] [2] 90)) (snd (rotate_pix [1] [2] 90)) 270 = rotate_pix [1] [2] (90 + 270)"
  using rotate_pix_laws [of "[1]" "[2]" 90 270] by simp

text \<open>
  C28. Rotation keeps every pixel's distance from the rover: the distances of the
  rotated pixel set are those of the original.
\<close>

theorem rotate_pix_keeps_distance:
  assumes "length xs = length ys"
  shows "fst (to_polar_coords (fst (rotate_pix xs ys yaw)) (snd (rotate_pix xs ys yaw)))
           = fst (to_polar_coords xs ys)"
  using assms
proof (induction xs ys rule: list_induct2)
  case Nil
  then show ?case by (simp add: rotate_pix_def to_polar_coords_def)
next
  case (Cons x xs y ys)
  then show ?case by (simp add: rotate_pix_def to_polar_coords_def Let_def rotate_point_norm)
qed

theorem rotate_pix_keeps_distance_witness:
  "length [3::real] = length [4::real]
   \<and> fst (to_polar_coords (fst (rotate_pix [3] [4] 90)) (snd (rotate_pix [3] [4] 90)))
       = fst (to_polar_coords [3] [4])"
  using rotate_pix_keeps_distance [of "[3]" "[4]" 90] by simp

text \<open>
  C29. Every non-zero pixel of a thresholded image lies ahead of the rover: in polar
  form its distance is at least 1 and its angle strictly between -90 and 90 degrees
  (in radians). In particular no distance is 0, so the inverse-square-root weights of
  the steering rule are finite.
\<close>

theorem rover_coords_polar_ahead:
  "\<forall>k < length (nonzero m).
     1 \<le> fst (to_polar_coords (fst (rover_coords m)) (snd (rover_coords m))) ! k
     \<and> - (pi / 2) < snd (to_polar_coords (fst (rover_coords m)) (snd (rover_coords m))) ! k
     \<and> snd (to_polar_coords (fst (rover_coords m)) (snd (rover_coords m))) ! k < pi / 2"
  using rover_polar_ranges by blast

theorem rover_coords_polar_ahead_witness:
  "fst (rover_coords [[False, True]]) = [1] \<and> snd (rover_coords [[False, True]]) = [0]
   \<and> 1 \<le> fst (to_polar_coords (fst (rover_coords [[False, True]])) (snd (rover_coords [[False, True]]))) ! 0"
proof -
  have n: "nonzero [[False, True]] = [(0, 1)]"
    by (simp add: nonzero_def)
  have r: "fst (rover_coords [[False, True]]) = [1] \<and> snd (rover_coords [[False, True]]) = [0]"
    by (simp add: rover_coords_def n shape1_def)
  have "0 < length (nonzero [[False, True]])" by (simp add: n)
  with rover_coords_polar_ahead [of "[[False, True]]"] r show ?thesis by blast
qed

end
