(* ===== verification/Classifier.thy ===== *)
theory Classifier
  imports Prelude
begin

text \<open>
  The terrain classifier of \<open>src/code/perception.py\<close>: \<open>generic_threshold\<close>
  (lines 5--23), the per-channel strict range test of a rectified \<open>uint8\<close> RGB
  frame, and the masks \<open>perception_step\<close> derives from it (lines 145--147 and 178):
  navigable terrain (every channel above 160), walls (every channel strictly between 0
  and 160), samples (red above 150, green above 100, blue below 50) and the obstacle map,
  the complement of the navigable mask inside the warp's valid region. The
  perspective warp itself is an OpenCV primitive: its output frame and validity mask are
  inputs here. The lemmas show the masks keep the frame's shape, that navigable pixels
  are never walls or samples, and what the obstacle map contains.
\<close>

definition generic_threshold :: "image \<Rightarrow> pixel \<Rightarrow> pixel \<Rightarrow> mask" where
  "generic_threshold img lower_thresh upper_thresh =
     map (map (\<lambda>(c0, c1, c2).
            fst lower_thresh < c0 \<and> fst (snd lower_thresh) < c1 \<and> snd (snd lower_thresh) < c2
          \<and> c0 < fst upper_thresh \<and> c1 < fst (snd upper_thresh) \<and> c2 < snd (snd upper_thresh))) img"

text \<open>The three colour classes of \<open>perception_step\<close>, with the default upper bound 255.\<close>

definition nav_thresh :: "image \<Rightarrow> mask" where
  "nav_thresh warped = generic_threshold warped (160, 160, 160) (255, 255, 255)"

definition wall_thresh :: "image \<Rightarrow> mask" where
  "wall_thresh warped = generic_threshold warped (0, 0, 0) (160, 160, 160)"

definition rock_thresh :: "image \<Rightarrow> mask" where
  "rock_thresh warped = generic_threshold warped (150, 100, 0) (255, 255, 50)"

text \<open>
  \<open>np.absolute(np.float32(thresholded) - 1) * mask\<close>: 1 exactly where the pixel is
  not navigable and the warp produced it.
\<close>

definition obstacle_map :: "mask \<Rightarrow> mask \<Rightarrow> mask" where
  "obstacle_map thresholded valid = map2 (map2 (\<lambda>t v. \<not> t \<and> v)) thresholded valid"

text \<open>A 0/1 mask times 255, as written into the \<open>uint8\<close> vision image.\<close>

definition mask_u8 :: "mask \<Rightarrow> u8 list list" where
  "mask_u8 m = map (map (\<lambda>b. if b then 255 else 0)) m"

section \<open>Shapes and pixels\<close>

lemma generic_threshold_shape [wf_simps]:
  "length (generic_threshold img lo hi) = length img"
  "i < length img \<Longrightarrow> length (generic_threshold img lo hi ! i) = length (img ! i)"
  by (simp_all add: generic_threshold_def)

lemma generic_threshold_nth:
  "i < length img \<Longrightarrow> j < length (img ! i) \<Longrightarrow>
   generic_threshold img lo hi ! i ! j =
     (case img ! i ! j of (c0, c1, c2) \<Rightarrow>
        fst lo < c0 \<and> fst (snd lo) < c1 \<and> snd (snd lo) < c2
      \<and> c0 < fst hi \<and> c1 < fst (snd hi) \<and> c2 < snd (snd hi))"
  by (simp add: generic_threshold_def)

lemma obstacle_map_nth:
  "i < length t \<Longrightarrow> i < length v \<Longrightarrow> j < length (t ! i) \<Longrightarrow> j < length (v ! i) \<Longrightarrow>
   obstacle_map t v ! i ! j = (\<not> t ! i ! j \<and> v ! i ! j)"
  by (simp add: obstacle_map_def)

lemma obstacle_map_shape [wf_simps]:
  "length (obstacle_map t v) = min (length t) (length v)"
  by (simp add: obstacle_map_def)


lemma classifier_wf [wf_simps]:
  "wf_image rows cols img \<Longrightarrow> wf_image rows cols (generic_threshold img lo hi)"
  "wf_image rows cols img \<Longrightarrow> wf_image rows cols (nav_thresh img)"
  "wf_image rows cols img \<Longrightarrow> wf_image rows cols (wall_thresh img)"
  "wf_image rows cols img \<Longrightarrow> wf_image rows cols (rock_thresh img)"
  "wf_image rows cols t \<Longrightarrow> wf_image rows cols v \<Longrightarrow> wf_image rows cols (obstacle_map t v)"
  "wf_image rows cols m \<Longrightarrow> wf_image rows cols (mask_u8 m)"
  by (simp_all add: generic_threshold_def nav_thresh_def wall_thresh_def rock_thresh_def
                    obstacle_map_def mask_u8_def wf_image_map wf_image_map2)

section \<open>Properties of the classifier\<close>

lemma pixel_classes:
  fixes c0 c1 c2 :: u8
  shows "\<not> ((160 < c0 \<and> c0 < 255) \<and> c0 < 160)"
    and "\<not> (160 < c2 \<and> c2 < 50)"
    and "\<not> (0 < (0::u8))" and "\<not> ((160::u8) < 0)" and "\<not> ((150::u8) < 0)"
  by (auto dest: order.strict_trans)

text \<open>
  C30. The colour classes of one pixel: a navigable pixel is never a wall pixel and never
  a sample pixel, and a black pixel (what the warp writes outside its valid region) is
  in none of the three classes.
\<close>

theorem threshold_classes:
  assumes "i < length w" and "j < length (w ! i)"
  shows "\<not> (nav_thresh w ! i ! j \<and> wall_thresh w ! i ! j)
       \<and> \<not> (nav_thresh w ! i ! j \<and> rock_thresh w ! i ! j)
       \<and> (w ! i ! j = (0, 0, 0) \<longrightarrow>
            \<not> nav_thresh w ! i ! j \<and> \<not> wall_thresh w ! i ! j \<and> \<not> rock_thresh w ! i ! j)"
  using assms pixel_classes
  by (auto simp: nav_thresh_def wall_thresh_def rock_thresh_def generic_threshold_nth split: prod.splits)

theorem threshold_classes_witness:
  "\<not> (nav_thresh [[(200, 200, 200), (0, 0, 0)]] ! 0 ! 0 \<and> wall_thresh [[(200, 200, 200), (0, 0, 0)]] ! 0 ! 0)
   \<and> \<not> nav_thresh [[(200, 200, 200), (0, 0, 0)]] ! 0 ! 1"
  using threshold_classes [of 0 "[[(200, 200, 200), (0, 0, 0)]]" 0]
    threshold_classes [of 0 "[[(200, 200, 200), (0, 0, 0)]]" 1]
  by simp

text \<open>
  C31. The obstacle map inside a frame and validity mask of the same shape: every wall
  pixel of the valid region is an obstacle pixel, no navigable pixel is, and no pixel
  outside the valid region is.
\<close>

theorem obstacle_map_classes:
  assumes "i < length w" and "j < length (w ! i)"
    and "length v = length w" and "length (v ! i) = length (w ! i)"
  shows "(wall_thresh w ! i ! j \<and> v ! i ! j \<longrightarrow> obstacle_map (nav_thresh w) v ! i ! j)
       \<and> (nav_thresh w ! i ! j \<longrightarrow> \<not> obstacle_map (nav_thresh w) v ! i ! j)
       \<and> (\<not> v ! i ! j \<longrightarrow> \<not> obstacle_map (nav_thresh w) v ! i ! j)"
proof -
  have o: "obstacle_map (nav_thresh w) v ! i ! j = (\<not> nav_thresh w ! i ! j \<and> v ! i ! j)"
    using assms by (simp add: obstacle_map_nth nav_thresh_def wf_simps)
  have "\<not> (nav_thresh w ! i ! j \<and> wall_thresh w ! i ! j)"
    using assms pixel_classes
    by (auto simp: nav_thresh_def wall_thresh_def generic_threshold_nth split: prod.splits)
  with o show ?thesis by blast
qed

theorem obstacle_map_classes_witness:
  "obstacle_map (nav_thresh [[(100, 90, 80), (200, 200, 200)]]) [[True, True]] ! 0 ! 0
   \<and> \<not> obstacle_map (nav_thresh [[(100, 90, 80), (200, 200, 200)]]) [[True, True]] ! 0 ! 1"
proof -
  have "wall_thresh [[(100, 90, 80), (200, 200, 200)]] ! 0 ! 0"
    and "nav_thresh [[(100, 90, 80), (200, 200, 200)]] ! 0 ! 1"
    by (simp_all add: wall_thresh_def nav_thresh_def generic_threshold_def)
  with obstacle_map_classes [of 0 "[[(100, 90, 80), (200, 200, 200)]]" 0 "[[True, True]]"]
    obstacle_map_classes [of 0 "[[(100, 90, 80), (200, 200, 200)]]" 1 "[[True, True]]"]
  show ?thesis by simp
qed

end
