(* ===== verification/WorldMap.thy ===== *)
theory WorldMap
  imports Prelude
begin

text \<open>
  The world map accumulator of \<open>src/code/perception.py\<close> (lines 164--170 and 187).
  The source updates the map with numpy fancy indexing,
  \<open>Rover.worldmap[ys, xs, c] += d\<close>: the cells are gathered, \<open>d\<close> is added, and the
  results are scattered back, so a cell listed several times is still updated once.
  What \<open>+= d\<close> does to one cell depends on the array's dtype, which the simulator
  bridge fixes outside the repository's files; it is an interface here, a record of
  the two cell operations the source uses (\<open>+= d\<close> and \<open>= v\<close>), with three
  instances: the saturating 8-bit accumulator of the spec (\<open>sat_u8\<close>), numpy's
  wrapping \<open>uint8\<close> (\<open>wrap_u8\<close>), and the float array of the original bridge
  (\<open>float_cells\<close>). The lemmas give the evidence one frame leaves in a cell with the
  code's \<open>float64\<close> cells, that this evidence grows without bound, and that
  numpy's \<open>uint8\<close> wraps instead.
\<close>

record 'c dtype =
  d_add :: "int \<Rightarrow> 'c \<Rightarrow> 'c"
  d_of_int :: "int \<Rightarrow> 'c"

text \<open>\<open>wm[ys, xs, c] += d\<close>: every listed (y, x) cell of channel \<open>c\<close>, once.\<close>

definition add_at :: "'c dtype \<Rightarrow> 'c grid \<Rightarrow> int list \<Rightarrow> int list \<Rightarrow> nat \<Rightarrow> int \<Rightarrow> 'c grid" where
  "add_at dt wm ys xs c d =
     wm\<lparr>grid_cells := (\<lambda>y x ch. if ch = c \<and> (y, x) \<in> set (zip ys xs)
                                then d_add dt d (grid_cells wm y x ch) else grid_cells wm y x ch)\<rparr>"

text \<open>\<open>wm[y, x, c] = v\<close>.\<close>

definition set_at :: "'c dtype \<Rightarrow> 'c grid \<Rightarrow> int \<Rightarrow> int \<Rightarrow> nat \<Rightarrow> int \<Rightarrow> 'c grid" where
  "set_at dt wm y x c v =
     wm\<lparr>grid_cells := (\<lambda>y' x' ch. if y' = y \<and> x' = x \<and> ch = c then d_of_int dt v
                                  else grid_cells wm y' x' ch)\<rparr>"

text \<open>
  Lines 165--170, in their order: navigable cells (channel 2 up 255, channel 0 down
  100), wall cells (channel 2 down 10, channel 0 up 255), obstacle-map cells
  (channel 2 down 0, channel 0 up 160). Each argument is an (x, y) pair of world
  coordinate arrays as \<open>pix_to_world\<close> returns them.
\<close>

definition update_worldmap ::
  "'c dtype \<Rightarrow> 'c grid \<Rightarrow> int list \<times> int list \<Rightarrow> int list \<times> int list \<Rightarrow> int list \<times> int list \<Rightarrow> 'c grid" where
  "update_worldmap dt wm nav walls obst =
     (let (x_world, y_world) = nav;
          (xpix_world_walls, ypix_world_walls) = walls;
          (obstacle_x_world, obstacle_y_world) = obst;
          wm1 = add_at dt wm y_world x_world 2 255;
          wm2 = add_at dt wm1 y_world x_world 0 (-100);
          wm3 = add_at dt wm2 ypix_world_walls xpix_world_walls 2 (-10);
          wm4 = add_at dt wm3 ypix_world_walls xpix_world_walls 0 255;
          wm5 = add_at dt wm4 obstacle_y_world obstacle_x_world 2 (-0);
          wm6 = add_at dt wm5 obstacle_y_world obstacle_x_world 0 160
      in wm6)"

section \<open>The cell types\<close>

text \<open>The spec's accumulator: an unsigned 8-bit counter clamped to \<open>[0, 255]\<close>.\<close>

definition sat_u8 :: "int dtype" where
  "sat_u8 = \<lparr>d_add = (\<lambda>d v. np_clip (v + d) 0 255), d_of_int = (\<lambda>v. np_clip v 0 255)\<rparr>"

text \<open>numpy \<open>uint8\<close>: \<open>+=\<close> and \<open>=\<close> wrap modulo 256.\<close>

definition wrap_u8 :: "u8 dtype" where
  "wrap_u8 = \<lparr>d_add = (\<lambda>d v. v + word_of_int d), d_of_int = word_of_int\<rparr>"

text \<open>numpy \<open>float64\<close>: plain addition.\<close>

definition float_cells :: "real dtype" where
  "float_cells = \<lparr>d_add = (\<lambda>d v. v + of_int d), d_of_int = of_int\<rparr>"

section \<open>Lemmas\<close>

lemma add_at_size [simp]: "grid_size (add_at dt wm ys xs c d) = grid_size wm"
  by (simp add: add_at_def)

lemma set_at_size [simp]: "grid_size (set_at dt wm y x c v) = grid_size wm"
  by (simp add: set_at_def)

lemma update_worldmap_size [simp]: "grid_size (update_worldmap dt wm n w ob) = grid_size wm"
  by (simp add: update_worldmap_def Let_def split: prod.splits)

lemma add_at_cell:
  "grid_cells (add_at dt wm ys xs c d) y x ch =
     (if ch = c \<and> (y, x) \<in> set (zip ys xs) then d_add dt d (grid_cells wm y x ch) else grid_cells wm y x ch)"
  by (simp add: add_at_def)


lemma update_worldmap_cell:
  "grid_cells (update_worldmap dt wm (nx, ny) (wx, wy) (ox, oy)) y x ch =
     (let inn = (y, x) \<in> set (zip ny nx); inw = (y, x) \<in> set (zip wy wx); ino = (y, x) \<in> set (zip oy ox);
          v = grid_cells wm y x ch;
          step = (\<lambda>b d v. if b then d_add dt d v else v)
      in if ch = 2 then step ino 0 (step inw (-10) (step inn 255 v))
         else if ch = 0 then step ino 160 (step inw 255 (step inn (-100) v))
         else v)"
  by (simp add: update_worldmap_def add_at_cell Let_def)

text \<open>
  With numpy \<open>float64\<close> cells nothing bounds the evidence: every frame that sees a cell
  as navigable (and not as a wall or obstacle) adds 255 to its navigable channel, so after
  \<open>n\<close> such frames it has grown by \<open>255 n\<close>.
\<close>

lemma update_worldmap_float_grows:
  "grid_cells (((\<lambda>g. update_worldmap float_cells g ([x], [y]) ([], []) ([], [])) ^^ n) wm) y x 2
     = grid_cells wm y x 2 + 255 * real n"
  by (induction n) (simp_all add: update_worldmap_cell float_cells_def algebra_simps)

section \<open>Properties of the accumulator\<close>

text \<open>
  C32. The evidence one frame leaves in a cell of the code's \<open>float64\<close> map: the
  navigable channel gains 255 if a navigable pixel falls in the cell and loses 10 if a
  wall pixel does; the obstacle channel loses 100, gains 255 and gains 160 for a
  navigable, a wall and an obstacle-map pixel; the rock channel is untouched. A cell
  listed several times in one array is counted once.
\<close>

theorem update_worldmap_evidence:
  "grid_cells (update_worldmap float_cells wm (nx, ny) (wx, wy) (ox, oy)) y x 2 =
      grid_cells wm y x 2 + (if (y, x) \<in> set (zip ny nx) then 255 else 0)
                          - (if (y, x) \<in> set (zip wy wx) then 10 else 0)
   \<and> grid_cells (update_worldmap float_cells wm (nx, ny) (wx, wy) (ox, oy)) y x 0 =
      grid_cells wm y x 0 - (if (y, x) \<in> set (zip ny nx) then 100 else 0)
                          + (if (y, x) \<in> set (zip wy wx) then 255 else 0)
                          + (if (y, x) \<in> set (zip oy ox) then 160 else 0)
   \<and> grid_cells (update_worldmap float_cells wm (nx, ny) (wx, wy) (ox, oy)) y x 1 = grid_cells wm y x 1"
  by (simp add: update_worldmap_cell Let_def float_cells_def)

text \<open>
  C33. With numpy's \<open>uint8\<close> arithmetic the accumulator does not saturate but wraps: a
  cell already confirmed navigable (255) with no obstacle evidence (0) that is seen as
  navigable once more drops to 254 navigable and jumps to 156 obstacle evidence.
\<close>

theorem update_worldmap_wraps_u8:
  assumes "grid_cells wm y x 2 = 255" and "grid_cells wm y x 0 = 0"
    and "(y, x) \<in> set (zip ny nx)" and "(y, x) \<notin> set (zip wy wx)" and "(y, x) \<notin> set (zip oy ox)"
  shows "grid_cells (update_worldmap wrap_u8 wm (nx, ny) (wx, wy) (ox, oy)) y x 2 = 254
       \<and> grid_cells (update_worldmap wrap_u8 wm (nx, ny) (wx, wy) (ox, oy)) y x 0 = 156"
  using assms by (simp add: update_worldmap_cell Let_def wrap_u8_def)

theorem update_worldmap_wraps_u8_witness:
  "grid_cells (update_worldmap wrap_u8 \<lparr>grid_size = 200, grid_cells = (\<lambda>y x c. if c = 2 then 255 else 0)\<rparr>
                 ([5], [7]) ([], []) ([], [])) 7 5 2 = 254"
  using update_worldmap_wraps_u8 [where wm = "\<lparr>grid_size = 200, grid_cells = (\<lambda>y x c. if c = 2 then 255 else 0)\<rparr>"
      and y = 7 and x = 5 and nx = "[5]" and ny = "[7]" and wx = "[]" and wy = "[]" and ox = "[]" and oy = "[]"]
  by simp

end
