(* ===== verification/Rover.thy ===== *)
theory Rover
  imports Prelude
begin

text \<open>
  The rover state both steps read and write. The source passes one mutable
  \<open>RoverState\<close> object (built by the simulator bridge, which is not among the
  repository's files) through \<open>perception_step\<close> and \<open>decision_step\<close>; here it is
  a record, and each step returns the updated record. The fields are exactly those the
  two source files read or write. The world map's cell type \<open>'c\<close> is left open,
  since the array's dtype is fixed outside the sources (see \<open>WorldMap\<close>).
  The controller's mode, a string tag in the source (\<open>'forward'\<close>, \<open>'stop'\<close>,
  \<open>'stuck'\<close>, \<open>'collect'\<close>), is a datatype.
\<close>

datatype mode = Forward | Stop | Stuck | Collect

record 'c rover =
  pos :: "real \<times> real"
  yaw :: real
  vel :: real
  total_time :: real
  near_sample :: bool
  picking_up :: bool
  worldmap :: "'c grid"
  vision_image :: "nat \<Rightarrow> u8 list list"
  nav_angles :: "real list option"
  nav_dists :: "real list option"
  rock_angle :: "real list option"
  mode :: mode
  throttle :: real
  brake :: real
  steer :: real
  send_pickup :: bool
  time_forward_start :: real
  time_stuck_start :: real
  time_collecting_start :: real
  throttle_set :: real
  brake_set :: real
  max_vel :: real
  stop_forward :: nat
  go_forward :: nat

text \<open>\<open>Rover.vision_image[:, :, 1].any()\<close>: a sample is in view.\<close>

definition rock_in_view :: "'c rover \<Rightarrow> bool" where
  "rock_in_view r = list_ex (list_ex (\<lambda>v. v \<noteq> 0)) (vision_image r 1)"

text \<open>
  Navigation data as perception leaves it: angles and distances present, of equal
  length, every distance positive.
\<close>

definition nav_consistent :: "'c rover \<Rightarrow> bool" where
  "nav_consistent r =
     (case (nav_angles r, nav_dists r) of
        (Some angs, Some dists) \<Rightarrow> length angs = length dists \<and> list_all (\<lambda>d. 0 < d) dists
      | _ \<Rightarrow> False)"

text \<open>
  A concrete state for the witnesses: the setpoints are those the simulator bridge
  starts with (throttle 0.2, brake 10, cruise speed 2, stop and go thresholds 50 and
  500 pixels); the map is empty and no frame has been seen yet.
\<close>

definition demo_rover :: "int rover" where
  "demo_rover =
     \<lparr>pos = (100, 100), yaw = 0, vel = 0, total_time = 0, near_sample = False,
      picking_up = False, worldmap = \<lparr>grid_size = 200, grid_cells = (\<lambda>y x c. 0)\<rparr>, vision_image = (\<lambda>c. []),
      nav_angles = None, nav_dists = None, rock_angle = None, mode = Forward,
      throttle = 0, brake = 0, steer = 0, send_pickup = False,
      time_forward_start = 0, time_stuck_start = 0, time_collecting_start = 0,
      throttle_set = 0.2, brake_set = 10, max_vel = 2, stop_forward = 50, go_forward = 500\<rparr>"

end
