(* ===== verification/Perspective.thy ===== *)
theory Perspective
  imports Prelude
begin

text \<open>
  The camera-to-ground rectification of \<open>src/code/perception.py\<close>: \<open>perspect_transform\<close>
  (lines 110--121) and the calibration points of \<open>perception_step\<close> (lines 132--141).
  The two OpenCV calls are library code the source only calls; they are the fields of
  the interface record \<open>cv2\<close>, with their contract \<open>cv2_contract\<close> (a warped image has
  the requested size \<open>dsize = (width, height)\<close>). A 3x3 homography is a triple of rows;
  the contract says nothing of the matrix \<open>cv2.getPerspectiveTransform\<close> returns, so
  no property here depends on it. Proved here: the rectified image and its validity
  mask have the camera frame's shape.
\<close>

type_synonym point = "real \<times> real"
type_synonym mat3 = "(real \<times> real \<times> real) \<times> (real \<times> real \<times> real) \<times> (real \<times> real \<times> real)"

record cv2 =
  get_perspective_transform :: "point list \<Rightarrow> point list \<Rightarrow> mat3"
  warp_rgb :: "mat3 \<Rightarrow> image \<Rightarrow> nat \<times> nat \<Rightarrow> image"
  warp_u8 :: "mat3 \<Rightarrow> u8 list list \<Rightarrow> nat \<times> nat \<Rightarrow> u8 list list"

text \<open>\<open>cv2.warpPerspective(img, M, dsize)\<close> returns an image of \<open>dsize = (width, height)\<close>.\<close>

definition cv2_contract :: "cv2 \<Rightarrow> bool" where
  "cv2_contract cv \<longleftrightarrow>
     (\<forall>M img w h. wf_image h w (warp_rgb cv M img (w, h)))
     \<and> (\<forall>M m w h. wf_image h w (warp_u8 cv M m (w, h)))"

text \<open>
  Lines 110--121. \<open>img.shape[1]\<close> is the width (\<open>shape1\<close>), \<open>img.shape[0]\<close> the height;
  the mask is the warp of \<open>np.ones_like(img[:, :, 0])\<close>, a \<open>uint8\<close> image of ones.
\<close>

definition perspect_transform :: "cv2 \<Rightarrow> image \<Rightarrow> point list \<Rightarrow> point list \<Rightarrow> image \<times> u8 list list" where
  "perspect_transform cv img src dst =
     (let M = get_perspective_transform cv src dst;
          warped = warp_rgb cv M img (shape1 img, length img);
          mask = warp_u8 cv M (map (map (\<lambda>_. 1)) img) (shape1 img, length img)
      in (warped, mask))"

text \<open>Line 136: the calibration grid's corners, found by inspection of a calibration image.\<close>

definition calib_source :: "point list" where
  "calib_source = [(14, 140), (301, 140), (200, 96), (118, 96)]"

text \<open>
  Lines 137--141: a square of side \<open>2 * dst_size\<close> pixels centred horizontally,
  \<open>bottom_offset\<close> pixels above the bottom of a frame of \<open>rows\<close> by \<open>cols\<close> pixels.
\<close>

definition calib_destination :: "real \<Rightarrow> real \<Rightarrow> real \<Rightarrow> real \<Rightarrow> point list" where
  "calib_destination dst_size bottom_offset rows cols =
     [(cols / 2 - dst_size, rows - bottom_offset),
      (cols / 2 + dst_size, rows - bottom_offset),
      (cols / 2 + dst_size, rows - 2 * dst_size - bottom_offset),
      (cols / 2 - dst_size, rows - 2 * dst_size - bottom_offset)]"

text \<open>A blank warp (every output pixel zero), an instance of the contract.\<close>

definition cv2_blank :: cv2 where
  "cv2_blank =
     \<lparr>get_perspective_transform = (\<lambda>_ _. ((1, 0, 0), (0, 1, 0), (0, 0, 1))),
      warp_rgb = (\<lambda>_ _ (w, h). replicate h (replicate w (0, 0, 0))),
      warp_u8 = (\<lambda>_ _ (w, h). replicate h (replicate w 0))\<rparr>"

section \<open>Lemmas\<close>

lemma cv2_contract_warps:
  "cv2_contract cv \<Longrightarrow> wf_image h w (warp_rgb cv M img (w, h))"
  "cv2_contract cv \<Longrightarrow> wf_image h w (warp_u8 cv M m (w, h))"
  unfolding cv2_contract_def by blast+

lemma wf_image_dsize:
  "wf_image rows cols img \<Longrightarrow> wf_image rows cols m \<Longrightarrow> wf_image rows (shape1 img) m"
  by (cases "rows = 0") (simp_all add: wf_image_shape1)

lemma cv2_blank_contract: "cv2_contract cv2_blank"
  by (simp add: cv2_contract_def cv2_blank_def wf_image_def list_all_iff)

text \<open>
  \<open>perspect_transform\<close> returns a rectified image and a validity mask of the camera
  frame's shape, whatever the calibration.
\<close>

lemma perspect_transform_shape:
  assumes "cv2_contract cv" and "wf_image rows cols img"
    and "perspect_transform cv img src dst = (warped, valid_mask)"
  shows "wf_image rows cols warped \<and> wf_image rows cols valid_mask"
proof -
  let ?M = "get_perspective_transform cv src dst"
  have w: "warped = warp_rgb cv ?M img (shape1 img, length img)"
    and m: "valid_mask = warp_u8 cv ?M (map (map (\<lambda>_. 1)) img) (shape1 img, length img)"
    using assms(3) by (simp_all add: perspect_transform_def Let_def)
  have "wf_image (length img) (shape1 img) warped" "wf_image (length img) (shape1 img) valid_mask"
    unfolding w m by (rule cv2_contract_warps [OF assms(1)])+
  moreover have "length img = rows" using assms(2) by (simp add: wf_image_def)
  ultimately show ?thesis
    using assms(2) by (cases "rows = 0") (simp_all add: wf_image_shape1)
qed

end
