(* ===== verification/Perception.thy ===== *)
theory Perception
  imports Geometry Classifier WorldMap Rover Perspective
begin

text \<open>
  The perception pipeline, \<open>perception_step\<close> of \<open>src/code/perception.py\<close>
  (lines 125--193): classify the rectified frame, write the vision image, convert the
  navigable, wall and obstacle pixels to rover and world coordinates, accumulate them
  into the world map, store the navigable pixels in polar form, and, when sample pixels
  are present, mark the world cell of the nearest one and store all their angles.
  \<open>perception_step\<close> (lines 144--193) takes the rectified frame and the warp's validity
  mask; \<open>perception_camera\<close> is the whole function from the camera frame, computing
  them by \<open>perspect_transform\<close> with the calibration points (lines 125--143). The map's
  cell type is the \<open>dtype\<close> interface of \<open>WorldMap\<close>.
\<close>

definition perception_step :: "'c dtype \<Rightarrow> image \<Rightarrow> mask \<Rightarrow> 'c rover \<Rightarrow> 'c rover" where
  "perception_step dt warped valid r =
     (let dst_size = (5::real);
          thresholded = nav_thresh warped;
          walls = wall_thresh warped;
          obstacle = obstacle_map thresholded valid;
          vis = (vision_image r)(0 := mask_u8 obstacle, 2 := mask_u8 thresholded);
          (xpix, ypix) = rover_coords thresholded;
          (xpix_walls, ypix_walls) = rover_coords walls;
          world_size = grid_size (worldmap r);
          scale = 2 * dst_size;
          (xp, yp) = pos r;
          nav_world = pix_to_world xpix ypix xp yp (yaw r) world_size scale;
          (obstacle_x, obstacle_y) = rover_coords obstacle;
          obstacle_world = pix_to_world obstacle_x obstacle_y xp yp (yaw r) world_size scale;
          walls_world = pix_to_world xpix_walls ypix_walls xp yp (yaw r) world_size scale;
          wm = update_worldmap dt (worldmap r) nav_world walls_world obstacle_world;
          (dist, angles) = to_polar_coords xpix ypix;
          r1 = r\<lparr>vision_image := vis, worldmap := wm, nav_angles := Some angles, nav_dists := Some dist\<rparr>;
          rock_map = rock_thresh warped
      in if np_any rock_map then
           (let (rock_x, rock_y) = rover_coords rock_map;
                (rock_x_world, rock_y_world) = pix_to_world rock_x rock_y xp yp (yaw r) world_size scale;
                (rock_dist, rock_ang) = to_polar_coords rock_x rock_y;
                rock_idx = np_argmin rock_dist;
                rock_x_center = rock_x_world ! rock_idx;
                rock_y_center = rock_y_world ! rock_idx
            in r1\<lparr>worldmap := set_at dt (worldmap r1) rock_y_center rock_x_center 1 255,
                  vision_image := (vision_image r1)(1 := mask_u8 rock_map),
                  rock_angle := Some rock_ang\<rparr>)
         else r1\<lparr>vision_image := (vision_image r1)(1 := map (map (\<lambda>_. 0)) (vision_image r1 1))\<rparr>)"

text \<open>
  The whole of \<open>perception_step\<close> as the code has it (lines 125--143, then the steps
  above): the calibration points for the frame's size, the rectification by
  \<open>perspect_transform\<close>, then the pipeline on the rectified frame. The warp of an image
  of ones is 1 inside the warped region and 0 outside, and the code only multiplies by
  it, so the mask enters the pipeline as the set of its non-zero pixels.
\<close>

definition perception_camera :: "cv2 \<Rightarrow> 'c dtype \<Rightarrow> image \<Rightarrow> 'c rover \<Rightarrow> 'c rover" where
  "perception_camera cv dt img r =
     (let dst_size = (5::real);
          bottom_offset = (6::real);
          source = calib_source;
          destination = calib_destination dst_size bottom_offset (real (length img)) (real (shape1 img));
          (warped, valid_mask) = perspect_transform cv img source destination
      in perception_step dt warped (map (map (\<lambda>v. v \<noteq> 0)) valid_mask) r)"

text \<open>
  The vision image the bridge allocates has the camera frame's shape in each of its
  three channels; the channel writes of lines 149--150 and 188--191 need it.
\<close>

definition wf_vision :: "nat \<Rightarrow> nat \<Rightarrow> 'c rover \<Rightarrow> bool" where
  "wf_vision rows cols r \<longleftrightarrow> list_all (\<lambda>c. wf_image rows cols (vision_image r c)) [0, 1, 2]"

section \<open>The nearest sample pixel\<close>

lemma argmin_from_correct:
  assumes "best < length pre" and "v = pre ! best"
    and "\<forall>j < length pre. v \<le> pre ! j" and "\<forall>j < best. v < pre ! j"
  shows "argmin_from (length pre) best v xs < length (pre @ xs)
       \<and> (\<forall>j < length (pre @ xs). (pre @ xs) ! argmin_from (length pre) best v xs \<le> (pre @ xs) ! j)
       \<and> (\<forall>j < argmin_from (length pre) best v xs. (pre @ xs) ! argmin_from (length pre) best v xs < (pre @ xs) ! j)"
  using assms
proof (induction xs arbitrary: pre best v)
  case Nil
  then show ?case by simp
next
  case (Cons x xs)
  show ?case
  proof (cases "x < v")
    case True
    have "\<forall>j < length (pre @ [x]). x \<le> (pre @ [x]) ! j" and "\<forall>j < length pre. x < (pre @ [x]) ! j"
      using True Cons.prems(3) by (auto simp: nth_append less_Suc_eq)
    then have "argmin_from (length (pre @ [x])) (length pre) x xs < length (pre @ [x] @ xs)
       \<and> (\<forall>j < length (pre @ [x] @ xs). (pre @ [x] @ xs) ! argmin_from (length (pre @ [x])) (length pre) x xs \<le> (pre @ [x] @ xs) ! j)
       \<and> (\<forall>j < argmin_from (length (pre @ [x])) (length pre) x xs.
            (pre @ [x] @ xs) ! argmin_from (length (pre @ [x])) (length pre) x xs < (pre @ [x] @ xs) ! j)"
      using Cons.IH [of "length pre" "pre @ [x]" x] by simp
    with True show ?thesis by simp
  next
    case False
    have "\<forall>j < length (pre @ [x]). v \<le> (pre @ [x]) ! j" and "\<forall>j < best. v < (pre @ [x]) ! j"
      using False Cons.prems by (auto simp: nth_append less_Suc_eq)
    moreover have "best < length (pre @ [x])" and "v = (pre @ [x]) ! best"
      using Cons.prems by (simp_all add: nth_append)
    ultimately have "argmin_from (length (pre @ [x])) best v xs < length (pre @ [x] @ xs)
       \<and> (\<forall>j < length (pre @ [x] @ xs). (pre @ [x] @ xs) ! argmin_from (length (pre @ [x])) best v xs \<le> (pre @ [x] @ xs) ! j)
       \<and> (\<forall>j < argmin_from (length (pre @ [x])) best v xs.
            (pre @ [x] @ xs) ! argmin_from (length (pre @ [x])) best v xs < (pre @ [x] @ xs) ! j)"
      using Cons.IH [of best "pre @ [x]" v] by simp
    with False show ?thesis by simp
  qed
qed

lemma np_argmin_correct:
  assumes "xs \<noteq> []"
  shows "np_argmin xs < length xs \<and> (\<forall>j < length xs. xs ! np_argmin xs \<le> xs ! j)
       \<and> (\<forall>j < np_argmin xs. xs ! np_argmin xs < xs ! j)"
proof -
  obtain x rest where xs: "xs = x # rest" using assms by (cases xs) auto
  from argmin_from_correct [of 0 "[x]" x rest] show ?thesis
    by (simp add: xs np_argmin_def)
qed


section \<open>What one perception step writes\<close>

lemma perception_step_frame [frame_simps]:
  "mode (perception_step dt w v r) = mode r"
  "throttle (perception_step dt w v r) = throttle r"
  "brake (perception_step dt w v r) = brake r"
  "steer (perception_step dt w v r) = steer r"
  "send_pickup (perception_step dt w v r) = send_pickup r"
  "time_forward_start (perception_step dt w v r) = time_forward_start r"
  "time_stuck_start (perception_step dt w v r) = time_stuck_start r"
  "time_collecting_start (perception_step dt w v r) = time_collecting_start r"
  "throttle_set (perception_step dt w v r) = throttle_set r"
  "brake_set (perception_step dt w v r) = brake_set r"
  "max_vel (perception_step dt w v r) = max_vel r"
  "stop_forward (perception_step dt w v r) = stop_forward r"
  "go_forward (perception_step dt w v r) = go_forward r"
  "pos (perception_step dt w v r) = pos r"
  "yaw (perception_step dt w v r) = yaw r"
  "vel (perception_step dt w v r) = vel r"
  "total_time (perception_step dt w v r) = total_time r"
  "near_sample (perception_step dt w v r) = near_sample r"
  "picking_up (perception_step dt w v r) = picking_up r"
  by (simp_all add: perception_step_def Let_def split: prod.split if_split)

lemma perception_step_nav:
  "nav_angles (perception_step dt w v r) =
     Some (snd (to_polar_coords (fst (rover_coords (nav_thresh w))) (snd (rover_coords (nav_thresh w)))))"
  "nav_dists (perception_step dt w v r) =
     Some (fst (to_polar_coords (fst (rover_coords (nav_thresh w))) (snd (rover_coords (nav_thresh w)))))"
  by (simp_all add: perception_step_def Let_def split: prod.split if_split)

lemma perception_step_rock_angle:
  "rock_angle (perception_step dt w v r) =
     (if np_any (rock_thresh w)
      then Some (snd (to_polar_coords (fst (rover_coords (rock_thresh w))) (snd (rover_coords (rock_thresh w)))))
      else rock_angle r)"
  by (simp add: perception_step_def Let_def split: prod.split if_split)

lemma perception_step_vision_rock:
  "vision_image (perception_step dt w v r) 1 =
     (if np_any (rock_thresh w) then mask_u8 (rock_thresh w) else map (map (\<lambda>_. 0)) (vision_image r 1))"
  by (simp add: perception_step_def Let_def split: prod.split if_split)

lemma perception_step_grid_size [simp]:
  "grid_size (worldmap (perception_step dt w v r)) = grid_size (worldmap r)"
  by (simp add: perception_step_def Let_def split: prod.split if_split)

lemma perception_step_nav_consistent: "nav_consistent (perception_step dt w v r)"
proof -
  let ?rc = "rover_coords (nav_thresh w)"
  let ?p = "to_polar_coords (fst ?rc) (snd ?rc)"
  have len: "length (fst ?p) = length (nonzero (nav_thresh w))" "length (snd ?p) = length (nonzero (nav_thresh w))"
    by (simp_all add: wf_simps)
  have "list_all (\<lambda>d. 0 < d) (fst ?p)"
    using rover_polar_ranges [of _ "nav_thresh w"] len by (fastforce simp: list_all_length)
  with len show ?thesis by (simp add: nav_consistent_def perception_step_nav)
qed

lemma rock_view_after_perception: "rock_in_view (perception_step dt w v r) = np_any (rock_thresh w)"
proof -
  have row: "list_ex (\<lambda>x. x \<noteq> 0) (map (\<lambda>b. if b then (255::u8) else 0) bs) = list_ex (\<lambda>b. b) bs" for bs
    by (induction bs) auto
  have "list_ex (list_ex (\<lambda>x. x \<noteq> 0)) (mask_u8 m) = np_any m" for m
    by (induction m) (simp_all add: mask_u8_def np_any_def row)
  moreover have "\<not> list_ex (list_ex (\<lambda>x. x \<noteq> 0)) (map (map (\<lambda>_. 0::u8)) m)" for m :: "u8 list list"
    by (simp add: list_ex_iff)
  ultimately show ?thesis
    unfolding rock_in_view_def perception_step_vision_rock by simp
qed

lemma rock_angle_after_perception:
  "np_any (rock_thresh w) \<Longrightarrow> \<exists>angs. rock_angle (perception_step dt w v r) = Some angs \<and> angs \<noteq> []
     \<and> length angs = length (nonzero (rock_thresh w))"
proof -
  assume a: "np_any (rock_thresh w)"
  let ?rc = "rover_coords (rock_thresh w)"
  have l: "length (snd (to_polar_coords (fst ?rc) (snd ?rc))) = length (nonzero (rock_thresh w))"
    by (simp add: wf_simps)
  moreover have "nonzero (rock_thresh w) \<noteq> []" using a by (simp add: nonzero_Nil_iff)
  ultimately have "snd (to_polar_coords (fst ?rc) (snd ?rc)) \<noteq> []" by auto
  with a l show ?thesis by (simp add: perception_step_rock_angle)
qed

lemma list_ex_map2_right: "list_ex P (map2 f xs ys) \<Longrightarrow> \<exists>x y. y \<in> set ys \<and> P (f x y)"
  by (auto simp: list_ex_iff dest: set_zip_rightD)

lemma obstacle_map_any: "np_any (obstacle_map t v) \<Longrightarrow> np_any v"
proof -
  assume "np_any (obstacle_map t v)"
  then obtain tr vr where "vr \<in> set v" and "list_ex (\<lambda>b. b) (map2 (\<lambda>t v. \<not> t \<and> v) tr vr)"
    unfolding np_any_def obstacle_map_def by (blast dest: list_ex_map2_right)
  then show "np_any v"
    by (auto simp: np_any_def list_ex_iff dest: list_ex_map2_right set_zip_rightD)
qed

lemma black_frame_classes:
  assumes "list_all (list_all (\<lambda>p. p = (0, 0, 0))) w"
  shows "\<not> np_any (nav_thresh w) \<and> \<not> np_any (wall_thresh w) \<and> \<not> np_any (rock_thresh w)"
proof -
  have black: "p = (0, 0, 0)" if "row \<in> set w" "p \<in> set row" for row p
    using assms that by (simp add: list_all_iff)
  have "\<not> np_any (generic_threshold w lo hi)" if "\<not> (fst lo < 0)" for lo hi
  proof
    assume "np_any (generic_threshold w lo hi)"
    then obtain i j where ij: "i < length w" "j < length (w ! i)" "generic_threshold w lo hi ! i ! j"
      by (auto simp: np_any_def list_ex_iff in_set_conv_nth generic_threshold_shape)
    then have "w ! i ! j = (0, 0, 0)" using black by (meson nth_mem)
    with ij that show False by (simp add: generic_threshold_nth)
  qed
  then show ?thesis using pixel_classes(3-5) by (simp add: nav_thresh_def wall_thresh_def rock_thresh_def)
qed

lemma black_nav_thresh:
  "list_all (list_all (\<lambda>p. p = (0, 0, 0))) w \<Longrightarrow> nav_thresh w = map (map (\<lambda>_. False)) w"
  using pixel_classes(4)
  by (fastforce simp: nav_thresh_def generic_threshold_def list_all_iff intro!: map_cong)

lemma obstacle_map_all_free:
  "map length v = map length w \<Longrightarrow> obstacle_map (map (map (\<lambda>_. False)) w) v = v"
proof (induction w arbitrary: v)
  case Nil
  then show ?case by (simp add: obstacle_map_def)
next
  case (Cons row rows)
  then obtain vr vs where v: "v = vr # vs" and "length vr = length row" and "map length vs = map length rows"
    by (cases v) auto
  moreover have "map2 (\<lambda>t v. \<not> t \<and> v) (map (\<lambda>_. False) row) vr = vr" if "length vr = length row"
    using that by (induction row arbitrary: vr) (auto simp: length_Suc_conv)
  ultimately show ?case using Cons.IH by (simp add: obstacle_map_def)
qed

lemma add_at_Nil [simp]: "add_at dt wm [] [] c d = wm"
  by (simp add: add_at_def)

lemma perception_step_vision:
  "vision_image (perception_step dt w v r) =
     (vision_image r)(0 := mask_u8 (obstacle_map (nav_thresh w) v), 2 := mask_u8 (nav_thresh w),
                      1 := (if np_any (rock_thresh w) then mask_u8 (rock_thresh w)
                            else map (map (\<lambda>_. 0)) (vision_image r 1)))"
  by (simp add: perception_step_def Let_def split: prod.split if_split)

lemma perception_step_wf_vision:
  assumes "wf_image rows cols w" and "wf_image rows cols v" and "wf_vision rows cols r"
  shows "wf_vision rows cols (perception_step dt w v r)"
  using assms by (simp add: wf_vision_def perception_step_vision wf_simps)

section \<open>Properties of the pipeline\<close>

text \<open>
  C11. Every perception step leaves navigation data the controller can use: navigable
  angles and distances, one per navigable pixel of the frame, every distance at least
  1 and every angle strictly between -90 and 90 degrees.
\<close>

theorem perception_nav_data:
  "\<exists>angs dists. nav_angles (perception_step dt w v r) = Some angs \<and> nav_dists (perception_step dt w v r) = Some dists
     \<and> length angs = length (nonzero (nav_thresh w)) \<and> length dists = length angs
     \<and> list_all (\<lambda>d. 1 \<le> d) dists \<and> list_all (\<lambda>a. - (pi / 2) < a \<and> a < pi / 2) angs"
proof -
  let ?rc = "rover_coords (nav_thresh w)"
  let ?p = "to_polar_coords (fst ?rc) (snd ?rc)"
  have len: "length (fst ?p) = length (nonzero (nav_thresh w))" "length (snd ?p) = length (nonzero (nav_thresh w))"
    by (simp_all add: wf_simps)
  have "list_all (\<lambda>d. 1 \<le> d) (fst ?p) \<and> list_all (\<lambda>a. - (pi / 2) < a \<and> a < pi / 2) (snd ?p)"
    using rover_polar_ranges [of _ "nav_thresh w"] len by (simp add: list_all_length)
  with len show ?thesis by (simp add: perception_step_nav)
qed

text \<open>
  C12. A sample is in view after a perception step exactly when the frame has sample
  pixels; then the sample angles are stored, one per sample pixel. When the frame has
  none, the angles of the last sample seen are kept, not cleared.
\<close>

theorem perception_rock_fields:
  "rock_in_view (perception_step dt w v r) = np_any (rock_thresh w)
   \<and> (np_any (rock_thresh w) \<longrightarrow> (\<exists>angs. rock_angle (perception_step dt w v r) = Some angs \<and> angs \<noteq> []
                                          \<and> length angs = length (nonzero (rock_thresh w))))
   \<and> (\<not> np_any (rock_thresh w) \<longrightarrow> rock_angle (perception_step dt w v r) = rock_angle r)"
  using rock_view_after_perception [of dt w v r] rock_angle_after_perception [of w dt v r]
    perception_step_rock_angle [of dt w v r] by auto

theorem perception_rock_fields_witness:
  "rock_angle (perception_step sat_u8 [[(0, 0, 0)]] [[True]] (demo_rover\<lparr>rock_angle := Some [0.3]\<rparr>)) = Some [0.3]
   \<and> \<not> rock_in_view (perception_step sat_u8 [[(0, 0, 0)]] [[True]] (demo_rover\<lparr>rock_angle := Some [0.3]\<rparr>))"
proof -
  have "\<not> np_any (rock_thresh [[(0, 0, 0)]])"
    by (simp add: np_any_def rock_thresh_def generic_threshold_def)
  with perception_rock_fields [of sat_u8 "[[(0, 0, 0)]]" "[[True]]" "demo_rover\<lparr>rock_angle := Some [0.3]\<rparr>"]
  show ?thesis by simp
qed

text \<open>
  C13. The sample cell: when the frame has sample pixels, the sample channel of the world
  cell of the nearest one (the first of least distance) is set to 255, overwriting it.
\<close>

theorem perception_marks_nearest_rock:
  assumes "np_any (rock_thresh w)"
  shows "let rc = rover_coords (rock_thresh w);
             dist = fst (to_polar_coords (fst rc) (snd rc));
             k = np_argmin dist;
             cell = world_cell (fst (pos r)) (snd (pos r)) (yaw r) (grid_size (worldmap r)) 10 (fst rc ! k, snd rc ! k)
         in k < length dist \<and> (\<forall>j < length dist. dist ! k \<le> dist ! j) \<and> (\<forall>j < k. dist ! k < dist ! j)
            \<and> grid_cells (worldmap (perception_step dt w v r)) (snd cell) (fst cell) 1 = d_of_int dt 255"
proof -
  let ?rx = "fst (rover_coords (rock_thresh w))" and ?ry = "snd (rover_coords (rock_thresh w))"
  have len: "length ?rx = length (nonzero (rock_thresh w))" "length ?ry = length (nonzero (rock_thresh w))"
    by (simp_all add: wf_simps)
  let ?dist = "fst (to_polar_coords ?rx ?ry)"
  have "?rx \<noteq> []" using assms len nonzero_Nil_iff [of "rock_thresh w"] by auto
  moreover have dl: "length ?dist = length ?rx"
    using len by (simp add: wf_simps)
  ultimately have "?dist \<noteq> []" by auto
  let ?k = "np_argmin ?dist"
  have am: "?k < length ?dist \<and> (\<forall>j < length ?dist. ?dist ! ?k \<le> ?dist ! j) \<and> (\<forall>j < ?k. ?dist ! ?k < ?dist ! j)"
    using np_argmin_correct [OF \<open>?dist \<noteq> []\<close>] .
  let ?pw = "pix_to_world ?rx ?ry (fst (pos r)) (snd (pos r)) (yaw r) (grid_size (worldmap r)) 10"
  have cell: "(fst ?pw ! ?k, snd ?pw ! ?k)
              = world_cell (fst (pos r)) (snd (pos r)) (yaw r) (grid_size (worldmap r)) 10 (?rx ! ?k, ?ry ! ?k)"
    using pix_to_world_nth [of ?rx ?ry ?k] len am dl by simp
  have "grid_cells (worldmap (perception_step dt w v r)) (snd ?pw ! ?k) (fst ?pw ! ?k) 1 = d_of_int dt 255"
    using assms by (simp add: perception_step_def Let_def set_at_def case_prod_beta)
  with am cell show ?thesis unfolding Let_def by (metis fst_conv snd_conv)
qed

theorem perception_marks_nearest_rock_witness:
  "grid_cells (worldmap (perception_step sat_u8 [[(200, 150, 10)]] [[True]] demo_rover)) 100 100 1 = 255"
proof -
  have r: "np_any (rock_thresh [[(200, 150, 10)]])"
    by (simp add: np_any_def rock_thresh_def generic_threshold_def)
  have rc: "rover_coords (rock_thresh [[(200, 150, 10)]]) = ([1], [1 / 2])"
    by (simp add: rover_coords_def rock_thresh_def generic_threshold_def nonzero_def shape1_def)
  have f: "\<lfloor>1 / 10 + (100::real)\<rfloor> = 100" "\<lfloor>1 / 2 / 10 + (100::real)\<rfloor> = 100"
    by (simp_all add: floor_eq_iff)
  have wc: "world_cell 100 100 0 200 10 (1, 1 / 2) = (100, 100)"
    using f by (simp add: world_cell_def np_clip_def np_int_def)
  from perception_marks_nearest_rock [OF r, of demo_rover sat_u8 "[[True]]"] show ?thesis
    by (simp add: rc wc Let_def demo_rover_def np_argmin_def sat_u8_def np_clip_def
                  to_polar_coords_def)
qed

text \<open>
  C14. A frame outside the warp's valid region altogether (every pixel black and
  invalid) classifies nothing: the map is unchanged, there is no navigable pixel and
  no sample in view.
\<close>

theorem perception_invalid_frame:
  assumes "list_all (list_all (\<lambda>p. p = (0, 0, 0))) w" and "list_all (list_all (\<lambda>b. \<not> b)) v"
  shows "worldmap (perception_step dt w v r) = worldmap r \<and> nav_angles (perception_step dt w v r) = Some []
       \<and> \<not> rock_in_view (perception_step dt w v r)"
proof -
  have c: "\<not> np_any (nav_thresh w) \<and> \<not> np_any (wall_thresh w) \<and> \<not> np_any (rock_thresh w)"
    using black_frame_classes [OF assms(1)] .
  have "\<not> np_any v" using assms(2) by (simp add: np_any_def list_ex_iff list_all_iff)
  then have o: "\<not> np_any (obstacle_map (nav_thresh w) v)" using obstacle_map_any by blast
  have e: "nonzero (nav_thresh w) = []" "nonzero (wall_thresh w) = []" "nonzero (obstacle_map (nav_thresh w) v) = []"
    using c o by (simp_all add: nonzero_Nil_iff)
  have "rover_coords m = ([], [])" if "nonzero m = []" for m
    using that by (simp add: rover_coords_def)
  with e c have "worldmap (perception_step dt w v r) = worldmap r \<and> nav_angles (perception_step dt w v r) = Some []"
    by (simp add: perception_step_def Let_def update_worldmap_def add_at_def pix_to_world_def
                  rotate_pix_def translate_pix_def to_polar_coords_def)
  with c show ?thesis by (simp add: rock_view_after_perception)
qed

theorem perception_invalid_frame_witness:
  "worldmap (perception_step sat_u8 [[(0, 0, 0), (0, 0, 0)]] [[False, False]] demo_rover) = worldmap demo_rover"
  using perception_invalid_frame [of "[[(0, 0, 0), (0, 0, 0)]]" "[[False, False]]" sat_u8 demo_rover] by simp


text \<open>
  C15. A black frame inside the warp's valid region is not a no-op: no pixel is
  navigable, so the obstacle map is the whole valid region, and the map records obstacle
  evidence (channel 0 up 160, channel 2 down 0) at the world cell of every valid pixel.
\<close>

theorem perception_dark_frame:
  assumes "list_all (list_all (\<lambda>p. p = (0, 0, 0))) w" and "map length v = map length w"
  shows "worldmap (perception_step dt w v r) =
           (let ob = pix_to_world (fst (rover_coords v)) (snd (rover_coords v)) (fst (pos r)) (snd (pos r))
                       (yaw r) (grid_size (worldmap r)) 10
            in add_at dt (add_at dt (worldmap r) (snd ob) (fst ob) 2 0) (snd ob) (fst ob) 0 160)"
proof -
  have c: "\<not> np_any (nav_thresh w) \<and> \<not> np_any (wall_thresh w) \<and> \<not> np_any (rock_thresh w)"
    using black_frame_classes [OF assms(1)] .
  have o: "obstacle_map (nav_thresh w) v = v"
    using assms by (simp add: black_nav_thresh obstacle_map_all_free)
  have "rover_coords m = ([], [])" if "\<not> np_any m" for m
  proof -
    have "nonzero m = []" using that nonzero_Nil_iff by blast
    then show ?thesis by (simp add: rover_coords_def)
  qed
  with c o show ?thesis
    by (simp add: perception_step_def Let_def update_worldmap_def pix_to_world_def
                  rotate_pix_def translate_pix_def case_prod_beta)
qed

theorem perception_dark_frame_witness:
  "worldmap (perception_step sat_u8 [[(0, 0, 0)]] [[True]] demo_rover)
     = add_at sat_u8 (add_at sat_u8 (worldmap demo_rover) [100] [100] 2 0) [100] [100] 0 160"
proof -
  have rc: "rover_coords [[True]] = ([1], [1 / 2])"
    by (simp add: rover_coords_def nonzero_def shape1_def)
  have f: "\<lfloor>1 / 10 + (100::real)\<rfloor> = 100" "\<lfloor>1 / 2 / 10 + (100::real)\<rfloor> = 100"
    by (simp_all add: floor_eq_iff)
  have pw: "pix_to_world [1] [1 / 2] 100 100 0 200 10 = ([100], [100])"
    using f by (simp add: pix_to_world_def rotate_pix_def translate_pix_def np_clip_def np_int_def)
  from perception_dark_frame [of "[[(0, 0, 0)]]" "[[True]]" sat_u8 demo_rover] show ?thesis
    by (simp add: rc pw demo_rover_def)
qed

text \<open>
  The code-level perception step keeps the vision image well-shaped, given a warp that
  honours its output size and a camera frame of the vision image's shape.
\<close>

lemma perception_camera_wf_vision:
  assumes "cv2_contract cv" and "wf_image rows cols img" and "wf_vision rows cols r"
  shows "wf_vision rows cols (perception_camera cv dt img r)"
proof -
  obtain warped valid_mask where pt:
    "perspect_transform cv img calib_source
       (calib_destination 5 6 (real (length img)) (real (shape1 img))) = (warped, valid_mask)"
    by (metis surj_pair)
  from perspect_transform_shape [OF assms(1,2) pt]
  have "wf_image rows cols warped" "wf_image rows cols (map (map (\<lambda>v. v \<noteq> 0)) valid_mask)"
    by (simp_all add: wf_image_map)
  with assms(3) pt show ?thesis
    by (simp add: perception_camera_def perception_step_wf_vision)
qed

end
