(* ===== verification/Decision.thy ===== *)
theory Decision
  imports Rover
begin

text \<open>
  The navigation controller of \<open>src/code/decision.py\<close>: the steering rule
  \<open>get_steer_angle\<close> (lines 4--14) and the mode machine \<open>decision_step\<close>
  (lines 19--130), one definition per mode handler in the order of the source's
  \<open>if\<close>/\<open>elif\<close> chain, then the pickup override that runs after every handler.
  Each handler returns \<open>Inl\<close> of a fault where numpy or Python would raise or produce
  NaN (\<open>None * x\<close>, \<open>np.average\<close> over arrays of different shapes, an infinite
  weight, \<open>np.mean\<close> of an empty array) and \<open>Inr\<close> of the updated state otherwise.
  The sequential field writes of each Python branch are record updates in the same
  order; a branch that reads the state after a write reads the updated record.
\<close>

section \<open>Steering rules\<close>

text \<open>
  \<open>get_steer_angle\<close>: the mean of the navigable angles in degrees weighted by
  \<open>1 / sqrt(distance)\<close>, clipped to \<open>[-15, 15]\<close>; 0 when there are no distances
  or they sum to 0. A distance of 0 gives an infinite weight and a negative one a NaN
  weight, both a NaN result.
\<close>

definition get_steer_angle :: "'c rover \<Rightarrow> py_fault + real" where
  "get_steer_angle r =
     (case nav_dists r of
        None \<Rightarrow> Inr 0
      | Some dists \<Rightarrow>
          (if sum_list dists > 0 then
             (case nav_angles r of
                None \<Rightarrow> Inl TypeError
              | Some angles \<Rightarrow>
                  (if length angles \<noteq> length dists then Inl TypeError
                   else if list_ex (\<lambda>d. d \<le> 0) dists then Inl NaNResult
                   else py_bind (np_average (map (\<lambda>a. a * 180 / pi) angles) (map (\<lambda>d. 1 / sqrt d) dists))
                          (\<lambda>v. Inr (np_clip v (-15) 15))))
           else Inr 0))"

text \<open>
  The steering of the collect mode (line 108): the unweighted mean of the sample's
  pixel angles in degrees, clipped; \<open>None\<close> raises, an empty array gives NaN.
\<close>

definition rock_steer :: "'c rover \<Rightarrow> py_fault + real" where
  "rock_steer r =
     (case rock_angle r of
        None \<Rightarrow> Inl TypeError
      | Some angs \<Rightarrow> py_bind (np_mean (map (\<lambda>a. a * 180 / pi) angs)) (\<lambda>m. Inr (np_clip m (-15) 15)))"

section \<open>Mode handlers\<close>

text \<open>\<open>n\<close> is \<open>len(Rover.nav_angles)\<close>, the count of navigable pixels.\<close>

definition decision_forward :: "nat \<Rightarrow> 'c rover \<Rightarrow> py_fault + 'c rover" where
  "decision_forward n r =
     (if rock_in_view r then Inr (r\<lparr>mode := Collect, time_collecting_start := total_time r\<rparr>)
      else if total_time r - time_forward_start r > 4 \<and> \<bar>vel r\<bar> < 0.01
        then Inr (r\<lparr>mode := Stuck, time_stuck_start := total_time r\<rparr>)
      else if n \<ge> stop_forward r then
        (let r1 = r\<lparr>throttle := (if vel r < max_vel r then throttle_set r else 0), brake := 0\<rparr>
         in py_bind (get_steer_angle r1) (\<lambda>a. Inr (r1\<lparr>steer := a\<rparr>)))
      else if n < stop_forward r then
        Inr (r\<lparr>throttle := 0, brake := brake_set r, steer := 0, mode := Stop\<rparr>)
      else Inr r)"

definition decision_stop :: "nat \<Rightarrow> 'c rover \<Rightarrow> py_fault + 'c rover" where
  "decision_stop n r =
     (if vel r > 0.2 then Inr (r\<lparr>throttle := 0, brake := brake_set r, steer := 0\<rparr>)
      else if vel r \<le> 0.2 then
        (let r1 = (if n < go_forward r then r\<lparr>throttle := 0, brake := 0, steer := -15\<rparr> else r)
         in if n \<ge> go_forward r then
              (let r2 = r1\<lparr>throttle := throttle_set r1, brake := 0\<rparr>
               in py_bind (get_steer_angle r2)
                    (\<lambda>a. Inr (r2\<lparr>steer := a, mode := Forward, time_forward_start := total_time r2\<rparr>)))
            else Inr r1)
      else Inr r)"

definition decision_stuck :: "'c rover \<Rightarrow> py_fault + 'c rover" where
  "decision_stuck r =
     py_bind (if \<bar>vel r\<bar> < 0.05 then py_bind (get_steer_angle r) (\<lambda>a. Inr (r\<lparr>steer := - a\<rparr>)) else Inr r)
       (\<lambda>r1. let r2 = r1\<lparr>throttle := - throttle_set r1 * 1.5\<rparr>
             in Inr (if total_time r2 - time_stuck_start r2 > 4 then r2\<lparr>mode := Stop, steer := 0\<rparr> else r2))"

definition decision_collect :: "'c rover \<Rightarrow> py_fault + 'c rover" where
  "decision_collect r =
     (let r1 = r\<lparr>throttle := 0, brake := brake_set r\<rparr>;
          r2 = r1\<lparr>throttle := throttle_set r1 / 2\<rparr>
      in py_bind (rock_steer r2) (\<lambda>a.
           let r3 = r2\<lparr>steer := a, brake := 0\<rparr>;
               r4 = (if \<bar>vel r3\<bar> < 0.01 \<and> total_time r3 - time_collecting_start r3 > 4
                     then r3\<lparr>mode := Stuck, time_stuck_start := total_time r3\<rparr> else r3)
           in Inr (if \<not> rock_in_view r4 \<and> total_time r4 - time_collecting_start r4 > 4
                   then r4\<lparr>mode := Stop\<rparr> else r4)))"

text \<open>Lines 124--128: the pickup request, after whichever handler ran.\<close>

definition pickup_override :: "'c rover \<Rightarrow> 'c rover" where
  "pickup_override r =
     (if near_sample r \<and> \<not> picking_up r
      then r\<lparr>throttle := 0, brake := brake_set r, send_pickup := True\<rparr>\<lparr>brake := 0\<rparr>
      else r)"

definition decision_step :: "'c rover \<Rightarrow> py_fault + 'c rover" where
  "decision_step r =
     py_bind
       (case nav_angles r of
          Some angles \<Rightarrow>
            (case mode r of
               Forward \<Rightarrow> decision_forward (length angles) r
             | Stop \<Rightarrow> decision_stop (length angles) r
             | Stuck \<Rightarrow> decision_stuck r
             | Collect \<Rightarrow> decision_collect r)
        | None \<Rightarrow> Inr (r\<lparr>throttle := throttle_set r, steer := 0, brake := 0\<rparr>))
       (\<lambda>r'. Inr (pickup_override r'))"

section \<open>Steering lemmas\<close>

lemma get_steer_angle_nav:
  assumes a: "nav_angles r' = nav_angles r" and d: "nav_dists r' = nav_dists r"
  shows "get_steer_angle r' = get_steer_angle r"
  unfolding get_steer_angle_def a d ..

lemma rock_steer_rock: "rock_angle r' = rock_angle r \<Longrightarrow> rock_steer r' = rock_steer r"
  by (simp add: rock_steer_def)

lemma get_steer_angle_abs: "get_steer_angle r = Inr a \<Longrightarrow> \<bar>a\<bar> \<le> 15"
  by (auto simp: get_steer_angle_def np_clip_abs py_bind_Inr_iff
           split: option.splits if_splits)

lemma rock_steer_abs: "rock_steer r = Inr a \<Longrightarrow> \<bar>a\<bar> \<le> 15"
  by (auto simp: rock_steer_def np_clip_abs py_bind_Inr_iff split: option.splits)

lemma sum_list_pos:
  "xs \<noteq> [] \<Longrightarrow> list_all (\<lambda>x. 0 < x) xs \<Longrightarrow> 0 < sum_list (xs :: real list)"
  by (induction xs) (fastforce simp: list_all_iff intro: add_pos_nonneg sum_list_nonneg less_imp_le)+

lemma get_steer_angle_consistent:
  assumes "nav_consistent r"
  shows "\<exists>a. get_steer_angle r = Inr a"
proof -
  obtain angs dists where a: "nav_angles r = Some angs" and d: "nav_dists r = Some dists"
    and len: "length angs = length dists" and pos: "list_all (\<lambda>d. 0 < d) dists"
    using assms by (auto simp: nav_consistent_def split: option.splits)
  show ?thesis
  proof (cases "0 < sum_list dists")
    case True
    then have "dists \<noteq> []" by auto
    moreover have "list_all (\<lambda>w. 0 < w) (map (\<lambda>d. 1 / sqrt d) dists)"
      using pos by (simp add: list_all_iff)
    ultimately have "0 < sum_list (map (\<lambda>d. 1 / sqrt d) dists)"
      by (intro sum_list_pos) simp_all
    moreover have "\<not> list_ex (\<lambda>d. d \<le> 0) dists"
      using pos by (auto simp: list_all_iff list_ex_iff)
    ultimately show ?thesis
      using True a d len by (simp add: get_steer_angle_def np_average_def)
  next
    case False
    with d show ?thesis by (simp add: get_steer_angle_def)
  qed
qed

lemma rock_steer_nonempty:
  "rock_angle r = Some angs \<Longrightarrow> angs \<noteq> [] \<Longrightarrow> \<exists>a. rock_steer r = Inr a"
  by (simp add: rock_steer_def np_mean_def)

section \<open>One step of the controller\<close>

lemma steering_upd [simp]:
  "get_steer_angle (r\<lparr>throttle := t\<rparr>) = get_steer_angle r"
  "get_steer_angle (r\<lparr>brake := b\<rparr>) = get_steer_angle r"
  "rock_steer (r\<lparr>throttle := t\<rparr>) = rock_steer r"
  "rock_steer (r\<lparr>brake := b\<rparr>) = rock_steer r"
  by (rule get_steer_angle_nav rock_steer_rock; simp)+

text \<open>
  The controller writes only its outputs (throttle, brake, steer, pickup request),
  its mode and the mode-entry timestamps; \<open>ctrl_frame\<close> lists what it leaves alone.
\<close>

definition ctrl_frame :: "'c rover \<Rightarrow> 'c rover \<Rightarrow> bool" where
  "ctrl_frame r r' \<longleftrightarrow>
     nav_angles r' = nav_angles r \<and> nav_dists r' = nav_dists r \<and> rock_angle r' = rock_angle r
     \<and> vision_image r' = vision_image r \<and> worldmap r' = worldmap r \<and> pos r' = pos r
     \<and> yaw r' = yaw r \<and> vel r' = vel r \<and> total_time r' = total_time r
     \<and> near_sample r' = near_sample r \<and> picking_up r' = picking_up r
     \<and> throttle_set r' = throttle_set r \<and> brake_set r' = brake_set r \<and> max_vel r' = max_vel r
     \<and> stop_forward r' = stop_forward r \<and> go_forward r' = go_forward r"

lemma ctrl_frame_trans: "ctrl_frame r r' \<Longrightarrow> ctrl_frame r' r'' \<Longrightarrow> ctrl_frame r r''"
  by (simp add: ctrl_frame_def)

lemma forward_frame: "decision_forward n r = Inr r' \<Longrightarrow> ctrl_frame r r'"
  by (cases "get_steer_angle r") (clarsimp simp: decision_forward_def ctrl_frame_def Let_def split: if_split_asm)+

lemma stop_frame: "decision_stop n r = Inr r' \<Longrightarrow> ctrl_frame r r'"
  by (cases "get_steer_angle r") (clarsimp simp: decision_stop_def ctrl_frame_def Let_def split: if_split_asm)+

lemma stuck_frame: "decision_stuck r = Inr r' \<Longrightarrow> ctrl_frame r r'"
  by (cases "get_steer_angle r") (clarsimp simp: decision_stuck_def ctrl_frame_def Let_def split: if_split_asm)+

lemma collect_frame: "decision_collect r = Inr r' \<Longrightarrow> ctrl_frame r r'"
  by (cases "rock_steer r") (clarsimp simp: decision_collect_def ctrl_frame_def Let_def split: if_split_asm)+

lemma pickup_override_frame: "ctrl_frame r (pickup_override r)"
  by (simp add: pickup_override_def ctrl_frame_def)

text \<open>The brake is applied only in the stop mode: each handler keeps this.\<close>

lemma forward_brake:
  "decision_forward n r = Inr r' \<Longrightarrow> brake r = 0 \<Longrightarrow> mode r' \<noteq> Stop \<Longrightarrow> brake r' = 0"
  by (cases "get_steer_angle r") (clarsimp simp: decision_forward_def Let_def split: if_split_asm)+

lemma stop_brake:
  "mode r = Stop \<Longrightarrow> decision_stop n r = Inr r' \<Longrightarrow> mode r' \<noteq> Stop \<Longrightarrow> brake r' = 0"
  by (cases "get_steer_angle r") (clarsimp simp: decision_stop_def Let_def split: if_split_asm)+

lemma stuck_brake:
  "decision_stuck r = Inr r' \<Longrightarrow> brake r' = brake r \<and> (mode r' = Stop \<or> mode r' = mode r)"
  by (cases "get_steer_angle r") (clarsimp simp: decision_stuck_def Let_def split: if_split_asm)+

lemma collect_brake: "decision_collect r = Inr r' \<Longrightarrow> brake r' = 0"
  by (cases "rock_steer r") (clarsimp simp: decision_collect_def Let_def split: if_split_asm)+

text \<open>Every steering command stays within \<open>[-15, 15]\<close> degrees.\<close>

lemma forward_steer:
  "decision_forward n r = Inr r' \<Longrightarrow> \<bar>steer r\<bar> \<le> 15 \<Longrightarrow> \<bar>steer r'\<bar> \<le> 15"
  by (cases "get_steer_angle r")
     (clarsimp simp: decision_forward_def Let_def dest!: get_steer_angle_abs split: if_split_asm)+

lemma stop_steer:
  "decision_stop n r = Inr r' \<Longrightarrow> \<bar>steer r\<bar> \<le> 15 \<Longrightarrow> \<bar>steer r'\<bar> \<le> 15"
  by (cases "get_steer_angle r")
     (clarsimp simp: decision_stop_def Let_def dest!: get_steer_angle_abs split: if_split_asm)+

lemma stuck_steer:
  "decision_stuck r = Inr r' \<Longrightarrow> \<bar>steer r\<bar> \<le> 15 \<Longrightarrow> \<bar>steer r'\<bar> \<le> 15"
  by (cases "get_steer_angle r")
     (clarsimp simp: decision_stuck_def Let_def dest!: get_steer_angle_abs split: if_split_asm)+

lemma collect_steer:
  "decision_collect r = Inr r' \<Longrightarrow> \<bar>steer r'\<bar> \<le> 15"
  by (cases "rock_steer r")
     (clarsimp simp: decision_collect_def Let_def dest!: rock_steer_abs split: if_split_asm)+

text \<open>The collect mode is entered only from the forward mode with a sample in view.\<close>

lemma forward_collect:
  "decision_forward n r = Inr r' \<Longrightarrow> mode r = Forward \<Longrightarrow> mode r' = Collect \<Longrightarrow> rock_in_view r"
  by (cases "get_steer_angle r") (clarsimp simp: decision_forward_def Let_def split: if_split_asm)+

lemma stop_collect:
  "decision_stop n r = Inr r' \<Longrightarrow> mode r = Stop \<Longrightarrow> mode r' \<noteq> Collect"
  by (cases "get_steer_angle r") (clarsimp simp: decision_stop_def Let_def split: if_split_asm)+


lemma pickup_override_fields [simp]:
  "mode (pickup_override r) = mode r"
  "steer (pickup_override r) = steer r"
  "brake (pickup_override r) = (if near_sample r \<and> \<not> picking_up r then 0 else brake r)"
  "throttle (pickup_override r) = (if near_sample r \<and> \<not> picking_up r then 0 else throttle r)"
  "send_pickup (pickup_override r) = (near_sample r \<and> \<not> picking_up r \<or> send_pickup r)"
  by (auto simp: pickup_override_def)

lemma pickup_override_idle: "\<not> (near_sample r \<and> \<not> picking_up r) \<Longrightarrow> pickup_override r = r"
  unfolding pickup_override_def by (rule if_not_P)

definition run_mode :: "nat \<Rightarrow> 'c rover \<Rightarrow> py_fault + 'c rover" where
  "run_mode n r =
     (case mode r of
        Forward \<Rightarrow> decision_forward n r
      | Stop \<Rightarrow> decision_stop n r
      | Stuck \<Rightarrow> decision_stuck r
      | Collect \<Rightarrow> decision_collect r)"

lemma decision_step_run_mode:
  "decision_step r =
     (case nav_angles r of
        Some angs \<Rightarrow> py_bind (run_mode (length angs) r) (\<lambda>r'. Inr (pickup_override r'))
      | None \<Rightarrow> Inr (pickup_override (r\<lparr>throttle := throttle_set r, steer := 0, brake := 0\<rparr>)))"
  by (simp add: decision_step_def run_mode_def split: option.split mode.split)

lemma decision_stepE:
  assumes "decision_step r = Inr r'"
  obtains (no_data) "nav_angles r = None"
    "r' = pickup_override (r\<lparr>throttle := throttle_set r, steer := 0, brake := 0\<rparr>)"
  | (handler) angs r1 where "nav_angles r = Some angs" "run_mode (length angs) r = Inr r1"
    "r' = pickup_override r1"
  using assms by (cases "nav_angles r") (auto simp: decision_step_run_mode py_bind_Inr_iff)

lemma run_mode_frame: "run_mode n r = Inr r' \<Longrightarrow> ctrl_frame r r'"
  by (cases "mode r") (simp_all add: run_mode_def forward_frame stop_frame stuck_frame collect_frame)

lemma decision_step_frame: "decision_step r = Inr r' \<Longrightarrow> ctrl_frame r r'"
proof (erule decision_stepE)
  assume "r' = pickup_override (r\<lparr>throttle := throttle_set r, steer := 0, brake := 0\<rparr>)"
  then show "ctrl_frame r r'"
    by (simp add: pickup_override_def ctrl_frame_def)
next
  fix angs r1
  assume "run_mode (length angs) r = Inr r1" and "r' = pickup_override r1"
  then show "ctrl_frame r r'"
    using run_mode_frame pickup_override_frame ctrl_frame_trans by blast
qed

lemma run_mode_brake:
  "run_mode n r = Inr r' \<Longrightarrow> (mode r \<noteq> Stop \<longrightarrow> brake r = 0) \<Longrightarrow> mode r' \<noteq> Stop \<Longrightarrow> brake r' = 0"
  by (cases "mode r") (auto simp: run_mode_def dest: forward_brake stop_brake stuck_brake collect_brake)

lemma decision_step_brake:
  assumes "decision_step r = Inr r'" and "mode r \<noteq> Stop \<longrightarrow> brake r = 0"
  shows "mode r' \<noteq> Stop \<longrightarrow> brake r' = 0"
  using assms(1)
proof (cases rule: decision_stepE)
  case (handler angs r1)
  then show ?thesis using run_mode_brake [OF handler(2) assms(2)] by simp
qed simp

lemma run_mode_steer:
  "run_mode n r = Inr r' \<Longrightarrow> \<bar>steer r\<bar> \<le> 15 \<Longrightarrow> \<bar>steer r'\<bar> \<le> 15"
  by (cases "mode r") (auto simp: run_mode_def dest: forward_steer stop_steer stuck_steer collect_steer)

lemma decision_step_steer:
  assumes "decision_step r = Inr r'" and "\<bar>steer r\<bar> \<le> 15"
  shows "\<bar>steer r'\<bar> \<le> 15"
  using assms(1)
proof (cases rule: decision_stepE)
  case (handler angs r1)
  then show ?thesis using run_mode_steer [OF handler(2) assms(2)] by simp
qed simp

lemma run_mode_collect:
  "run_mode n r = Inr r' \<Longrightarrow> mode r' = Collect \<Longrightarrow> mode r = Collect \<or> rock_in_view r"
  by (cases "mode r") (auto simp: run_mode_def dest: forward_collect stop_collect stuck_brake)

lemma decision_step_collect_entry:
  assumes "decision_step r = Inr r'" and "mode r' = Collect"
  shows "mode r = Collect \<or> rock_in_view r"
  using assms(1)
proof (cases rule: decision_stepE)
  case (handler angs r1)
  then show ?thesis using run_mode_collect [OF handler(2)] assms(2) by simp
qed (use assms(2) in simp)

text \<open>The throttle stays within 1.5 times the setpoint (the reverse of the stuck mode).\<close>

lemma run_mode_throttle:
  assumes "run_mode n r = Inr r'" and "\<bar>throttle r\<bar> \<le> 3 / 2 * \<bar>throttle_set r\<bar>"
  shows "\<bar>throttle r'\<bar> \<le> 3 / 2 * \<bar>throttle_set r\<bar>"
proof (cases "mode r")
  case Forward
  with assms show ?thesis
    by (cases "get_steer_angle r") (clarsimp simp: run_mode_def decision_forward_def Let_def split: if_split_asm)+
next
  case Stop
  with assms show ?thesis
    by (cases "get_steer_angle r") (clarsimp simp: run_mode_def decision_stop_def Let_def split: if_split_asm)+
next
  case Stuck
  with assms show ?thesis
    by (cases "get_steer_angle r") (clarsimp simp: run_mode_def decision_stuck_def Let_def abs_mult split: if_split_asm)+
next
  case Collect
  with assms show ?thesis
    by (cases "rock_steer r") (clarsimp simp: run_mode_def decision_collect_def Let_def split: if_split_asm)+
qed

lemma decision_step_throttle:
  assumes "decision_step r = Inr r'" and "\<bar>throttle r\<bar> \<le> 3 / 2 * \<bar>throttle_set r\<bar>"
  shows "\<bar>throttle r'\<bar> \<le> 3 / 2 * \<bar>throttle_set r'\<bar>"
proof -
  have "throttle_set r' = throttle_set r"
    using decision_step_frame [OF assms(1)] by (simp add: ctrl_frame_def)
  moreover have "\<bar>throttle r'\<bar> \<le> 3 / 2 * \<bar>throttle_set r\<bar>"
    using assms(1)
  proof (cases rule: decision_stepE)
    case (handler angs r1)
    then show ?thesis using run_mode_throttle [OF handler(2) assms(2)] by simp
  qed simp
  ultimately show ?thesis by simp
qed

lemma decision_step_total:
  assumes "nav_consistent r"
    and "mode r = Collect \<Longrightarrow> \<exists>angs. rock_angle r = Some angs \<and> angs \<noteq> []"
  shows "\<exists>r'. decision_step r = Inr r'"
proof -
  obtain a where a: "get_steer_angle r = Inr a"
    using get_steer_angle_consistent [OF assms(1)] by blast
  obtain angs where angs: "nav_angles r = Some angs"
    using assms(1) by (auto simp: nav_consistent_def split: option.splits)
  have "\<exists>r1. run_mode (length angs) r = Inr r1"
  proof (cases "mode r")
    case Collect
    then obtain ra where "rock_angle r = Some ra" and "ra \<noteq> []" using assms(2) by blast
    then obtain b where "rock_steer r = Inr b" using rock_steer_nonempty by blast
    with Collect show ?thesis by (simp add: run_mode_def decision_collect_def Let_def)
  qed (use a in \<open>simp_all add: run_mode_def decision_forward_def decision_stop_def decision_stuck_def Let_def\<close>)
  with angs show ?thesis by (auto simp: decision_step_run_mode)
qed


section \<open>Properties of the controller\<close>

text \<open>
  C16. The steering rule never divides by zero: with no distances, an empty array or
  only zero distances it returns exactly 0, even when the angles are missing.
\<close>

theorem get_steer_angle_no_terrain:
  assumes "case nav_dists r of None \<Rightarrow> True | Some ds \<Rightarrow> list_all (\<lambda>d. d = 0) ds"
  shows "get_steer_angle r = Inr 0"
proof (cases "nav_dists r")
  case (Some ds)
  have "list_all (\<lambda>d. d = 0) ds \<Longrightarrow> sum_list ds = (0::real)"
    by (induction ds) auto
  with Some assms show ?thesis by (simp add: get_steer_angle_def)
qed (simp add: get_steer_angle_def)

theorem get_steer_angle_no_terrain_witness:
  "(case nav_dists (demo_rover\<lparr>nav_dists := Some [0, 0]\<rparr>) of None \<Rightarrow> True | Some ds \<Rightarrow> list_all (\<lambda>d. d = 0) ds)
   \<and> get_steer_angle (demo_rover\<lparr>nav_dists := Some [0, 0]\<rparr>) = Inr 0"
  using get_steer_angle_no_terrain [of "demo_rover\<lparr>nav_dists := Some [0, 0]\<rparr>"] by simp

text \<open>
  C17. On navigation data as perception produces it (angles and distances of equal
  length, all distances positive) the steering rule raises nothing, produces no NaN,
  and its command lies within \<open>[-15, 15]\<close> degrees.
\<close>

theorem get_steer_angle_total:
  assumes "nav_consistent r"
  shows "\<exists>a. get_steer_angle r = Inr a \<and> \<bar>a\<bar> \<le> 15"
  using get_steer_angle_consistent [OF assms] get_steer_angle_abs by blast

theorem get_steer_angle_total_witness:
  "nav_consistent (demo_rover\<lparr>nav_angles := Some [0.1, -0.2], nav_dists := Some [1, 4]\<rparr>)
   \<and> (\<exists>a. get_steer_angle (demo_rover\<lparr>nav_angles := Some [0.1, -0.2], nav_dists := Some [1, 4]\<rparr>) = Inr a \<and> \<bar>a\<bar> \<le> 15)"
proof -
  have c: "nav_consistent (demo_rover\<lparr>nav_angles := Some [0.1, -0.2], nav_dists := Some [1, 4]\<rparr>)"
    by (simp add: nav_consistent_def)
  show ?thesis using c get_steer_angle_total [OF c] by blast
qed

text \<open>
  C18. Forward mode with too little navigable terrain (fewer angles than
  \<open>stop_forward\<close>), no sample in view and not stuck (the code's stuck test: more than 4 time units in
  the forward mode at a speed below 0.01, where the comment at the top of the file says 2
  seconds): one tick brakes to the stop
  mode with throttle 0, brake at its setpoint and steering 0.
\<close>

theorem decision_forward_stops:
  assumes "mode r = Forward" and "nav_angles r = Some angs" and "length angs < stop_forward r"
    and "\<not> rock_in_view r" and "\<not> (total_time r - time_forward_start r > 4 \<and> \<bar>vel r\<bar> < 0.01)"
    and "\<not> (near_sample r \<and> \<not> picking_up r)"
  shows "decision_step r = Inr (r\<lparr>throttle := 0, brake := brake_set r, steer := 0, mode := Stop\<rparr>)"
proof -
  have "decision_forward (length angs) r = Inr (r\<lparr>throttle := 0, brake := brake_set r, steer := 0, mode := Stop\<rparr>)"
    unfolding decision_forward_def if_not_P [OF assms(4)] if_not_P [OF assms(5)]
    using assms(3) by simp
  with assms(1,2,6) show ?thesis by (simp add: decision_step_def pickup_override_idle)
qed

theorem decision_forward_stops_witness:
  "mode (demo_rover\<lparr>nav_angles := Some [0.5]\<rparr>) = Forward
   \<and> \<not> rock_in_view (demo_rover\<lparr>nav_angles := Some [0.5]\<rparr>)
   \<and> decision_step (demo_rover\<lparr>nav_angles := Some [0.5]\<rparr>)
       = Inr (demo_rover\<lparr>nav_angles := Some [0.5], throttle := 0, brake := 10, steer := 0, mode := Stop\<rparr>)"
  using decision_forward_stops [of "demo_rover\<lparr>nav_angles := Some [0.5]\<rparr>" "[0.5]"]
  by (simp add: demo_rover_def rock_in_view_def)

text \<open>
  C19. Stop mode at a standstill (velocity at most 0.2) with enough navigable terrain
  (at least \<open>go_forward\<close> angles): one tick resumes the forward mode with throttle at
  its setpoint, brake released, steering from the steering rule and the forward-mode
  entry time reset to the current time.
\<close>

theorem decision_stop_goes:
  assumes "mode r = Stop" and "nav_angles r = Some angs" and "go_forward r \<le> length angs"
    and "vel r \<le> 0.2" and "get_steer_angle r = Inr a" and "\<not> (near_sample r \<and> \<not> picking_up r)"
  shows "decision_step r = Inr (r\<lparr>throttle := throttle_set r, brake := 0, steer := a, mode := Forward,
                                    time_forward_start := total_time r\<rparr>)"
proof -
  have "decision_stop (length angs) r = Inr (r\<lparr>throttle := throttle_set r, brake := 0, steer := a, mode := Forward,
                                    time_forward_start := total_time r\<rparr>)"
    using assms(3-5) by (simp add: decision_stop_def Let_def)
  with assms(1,2,6) show ?thesis by (simp add: decision_step_def pickup_override_idle)
qed

theorem decision_stop_goes_witness:
  "decision_step (demo_rover\<lparr>mode := Stop, vel := 0.1, total_time := 7, nav_angles := Some [0],
                              nav_dists := Some [1], go_forward := 1\<rparr>)
     = Inr (demo_rover\<lparr>mode := Forward, vel := 0.1, total_time := 7, nav_angles := Some [0],
                        nav_dists := Some [1], go_forward := 1, throttle := 0.2, brake := 0, steer := 0,
                        time_forward_start := 7\<rparr>)"
proof -
  let ?r = "demo_rover\<lparr>mode := Stop, vel := 0.1, total_time := 7, nav_angles := Some [0],
                         nav_dists := Some [1], go_forward := 1\<rparr>"
  have "get_steer_angle ?r = Inr 0"
    by (simp add: get_steer_angle_def np_average_def np_clip_def)
  from decision_stop_goes [OF _ _ _ _ this] show ?thesis by (simp add: demo_rover_def)
qed

text \<open>
  C20. Stuck mode times out: a tick in the stuck mode ends in the stop mode exactly when
  more than 4 time units have passed since the mode was entered, and then with
  steering 0; otherwise the rover stays stuck (backing up). The comment above the
  handler says the back-up lasts 2 seconds; the code's threshold is 4.
\<close>

theorem decision_stuck_timeout:
  assumes "mode r = Stuck" and "nav_angles r \<noteq> None" and "decision_step r = Inr r'"
  shows "(mode r' = Stop \<longleftrightarrow> total_time r - time_stuck_start r > 4)
       \<and> (mode r' = Stop \<longrightarrow> steer r' = 0) \<and> (mode r' \<noteq> Stop \<longrightarrow> mode r' = Stuck)"
  using assms(3)
proof (cases rule: decision_stepE)
  case (handler angs r1)
  with assms(1) show ?thesis
    by (cases "get_steer_angle r")
       (clarsimp simp: run_mode_def decision_stuck_def Let_def split: if_split_asm)+
qed (use assms(2) in simp)

theorem decision_stuck_timeout_witness:
  "(\<exists>r'. decision_step (demo_rover\<lparr>mode := Stuck, vel := 1, time_stuck_start := 10, total_time := 13.9,
                                      nav_angles := Some []\<rparr>) = Inr r' \<and> mode r' = Stuck)
   \<and> (\<exists>r'. decision_step (demo_rover\<lparr>mode := Stuck, vel := 1, time_stuck_start := 10, total_time := 14.1,
                                        nav_angles := Some []\<rparr>) = Inr r' \<and> mode r' = Stop \<and> steer r' = 0)"
proof -
  let ?a = "demo_rover\<lparr>mode := Stuck, vel := 1, time_stuck_start := 10, total_time := 13.9, nav_angles := Some []\<rparr>"
  let ?b = "demo_rover\<lparr>mode := Stuck, vel := 1, time_stuck_start := 10, total_time := 14.1, nav_angles := Some []\<rparr>"
  have "\<exists>r'. decision_step ?a = Inr r'" and "\<exists>r'. decision_step ?b = Inr r'"
    by (simp_all add: decision_step_def decision_stuck_def pickup_override_def demo_rover_def)
  then obtain ra rb where a: "decision_step ?a = Inr ra" and b: "decision_step ?b = Inr rb"
    by blast
  from decision_stuck_timeout [OF _ _ a] have "mode ra = Stuck" by simp
  moreover from decision_stuck_timeout [OF _ _ b] have "mode rb = Stop \<and> steer rb = 0" by simp
  ultimately show ?thesis using a b by blast
qed

text \<open>
  C21. A sample in view in the forward mode switches to the collect mode at once and
  records the entry time, whatever the count of navigable pixels.
\<close>

theorem decision_forward_rock:
  assumes "mode r = Forward" and "nav_angles r = Some angs" and "rock_in_view r"
  shows "decision_step r = Inr (pickup_override (r\<lparr>mode := Collect, time_collecting_start := total_time r\<rparr>))"
  using assms by (simp add: decision_step_def decision_forward_def)

theorem decision_forward_rock_witness:
  "decision_step (demo_rover\<lparr>nav_angles := Some [], vision_image := (\<lambda>c. [[255]]), total_time := 3\<rparr>)
     = Inr (pickup_override (demo_rover\<lparr>nav_angles := Some [], vision_image := (\<lambda>c. [[255]]), total_time := 3,
                                         mode := Collect, time_collecting_start := 3\<rparr>))"
  using decision_forward_rock [of "demo_rover\<lparr>nav_angles := Some [], vision_image := (\<lambda>c. [[255]]), total_time := 3\<rparr>" "[]"]
  by (simp add: demo_rover_def rock_in_view_def)

text \<open>
  C22. The pickup override: near a sample and not already picking up, a tick in any mode
  ends with throttle 0, the brake released and the pickup request raised.
\<close>

theorem decision_step_pickup:
  assumes "near_sample r" and "\<not> picking_up r" and "decision_step r = Inr r'"
  shows "throttle r' = 0 \<and> brake r' = 0 \<and> send_pickup r'"
  using assms(3)
proof (cases rule: decision_stepE)
  case (handler angs r1)
  then have "near_sample r1 = near_sample r \<and> picking_up r1 = picking_up r"
    using run_mode_frame by (auto simp: ctrl_frame_def)
  with handler assms(1,2) show ?thesis by simp
qed (use assms(1,2) in simp)

theorem decision_step_pickup_witness:
  "send_pickup (pickup_override (demo_rover\<lparr>near_sample := True, throttle := 0.2\<rparr>))
   \<and> throttle (pickup_override (demo_rover\<lparr>near_sample := True, throttle := 0.2\<rparr>)) = 0"
proof -
  let ?r = "demo_rover\<lparr>near_sample := True\<rparr>"
  have "decision_step ?r = Inr (pickup_override (demo_rover\<lparr>near_sample := True, throttle := 0.2\<rparr>))"
    by (simp add: decision_step_def demo_rover_def)
  from decision_step_pickup [OF _ _ this] show ?thesis by (simp add: demo_rover_def)
qed

text \<open>
  C23. The collect mode approaches at half throttle with the brake released, steers by
  the unweighted sample rule, and leaves for the stop mode when the sample has been out
  of view after 4 time units, otherwise for the stuck mode when stalled after 4 time
  units; the stop check runs last and wins.
\<close>

theorem decision_collect_step:
  assumes "mode r = Collect" and "nav_angles r \<noteq> None" and "rock_steer r = Inr a"
    and "\<not> (near_sample r \<and> \<not> picking_up r)"
  shows "\<exists>r'. decision_step r = Inr r' \<and> throttle r' = throttle_set r / 2 \<and> brake r' = 0
           \<and> steer r' = a
           \<and> mode r' = (if \<not> rock_in_view r \<and> total_time r - time_collecting_start r > 4 then Stop
                        else if \<bar>vel r\<bar> < 0.01 \<and> total_time r - time_collecting_start r > 4 then Stuck
                        else Collect)"
proof -
  let ?c = "total_time r - time_collecting_start r > 4"
  have "\<exists>r1. decision_collect r = Inr r1 \<and> throttle r1 = throttle_set r / 2 \<and> brake r1 = 0 \<and> steer r1 = a
         \<and> mode r1 = (if \<not> rock_in_view r \<and> ?c then Stop else if \<bar>vel r\<bar> < 0.01 \<and> ?c then Stuck else Collect)"
    using assms(1,3)
    by (cases "\<bar>vel r\<bar> < 0.01 \<and> ?c"; cases "rock_in_view r")
       (simp_all add: decision_collect_def Let_def rock_in_view_def)
  then obtain r1 where r1: "decision_collect r = Inr r1" and
    f: "throttle r1 = throttle_set r / 2 \<and> brake r1 = 0 \<and> steer r1 = a"
    and m: "mode r1 = (if \<not> rock_in_view r \<and> ?c then Stop else if \<bar>vel r\<bar> < 0.01 \<and> ?c then Stuck else Collect)"
    by blast
  have "near_sample r1 = near_sample r \<and> picking_up r1 = picking_up r"
    using collect_frame [OF r1] by (simp add: ctrl_frame_def)
  then have "decision_step r = Inr r1"
    using assms(1,2,4) r1 by (auto simp: decision_step_def pickup_override_idle)
  with f m show ?thesis by blast
qed

theorem decision_collect_step_witness:
  "\<exists>r'. decision_step (demo_rover\<lparr>mode := Collect, nav_angles := Some [], rock_angle := Some [0],
                                    vel := 1, total_time := 9, time_collecting_start := 2\<rparr>) = Inr r'
       \<and> mode r' = Stop \<and> steer r' = 0 \<and> throttle r' = 0.1"
proof -
  let ?r = "demo_rover\<lparr>mode := Collect, nav_angles := Some [], rock_angle := Some [0],
                        vel := 1, total_time := 9, time_collecting_start := 2\<rparr>"
  have "rock_steer ?r = Inr 0" by (simp add: rock_steer_def np_mean_def np_clip_def)
  from decision_collect_step [OF _ _ this] obtain r' where
    "decision_step ?r = Inr r'" "throttle r' = throttle_set ?r / 2" "steer r' = 0"
    "mode r' = (if \<not> rock_in_view ?r \<and> total_time ?r - time_collecting_start ?r > 4 then Stop
                else if \<bar>vel ?r\<bar> < 0.01 \<and> total_time ?r - time_collecting_start ?r > 4 then Stuck
                else Collect)"
    by (auto simp: demo_rover_def)
  then show ?thesis by (auto simp: demo_rover_def rock_in_view_def)
qed

end
