(* ===== verification/Mission.thy ===== *)
theory Mission
  imports Perception Decision
begin

text \<open>
  The mission loop that runs the two steps. The simulator bridge (not among the
  repository's files) receives one telemetry message per frame, writes the pose,
  velocity, clock and sample flags into the rover state, acknowledges a pickup request
  it has sent, and then calls \<open>perception_step\<close> followed by \<open>decision_step\<close>. A tick
  is modelled as exactly that sequence, with the telemetry values and the rectified frame
  left arbitrary; the reachable states are those of any run from an initial state.
  Invariants proved by rule induction over the runs: the brake is applied only in the
  stop mode, steering stays within 15 degrees, throttle within 1.5 times its setpoint,
  the collect mode always has sample angles to steer by, and no tick ever raises or yields
  NaN. The bridge of the original project also copies the simulator's echo of throttle
  and steering back into the state before the two steps; the model leaves those two
  fields as the previous decision set them.
\<close>

text \<open>The bridge's telemetry update; \<open>ack\<close> clears a pickup request it has acted on.\<close>

definition telemetry ::
  "'c rover \<Rightarrow> real \<times> real \<Rightarrow> real \<Rightarrow> real \<Rightarrow> real \<Rightarrow> bool \<Rightarrow> bool \<Rightarrow> bool \<Rightarrow> 'c rover" where
  "telemetry r p yw v t ns pu ack =
     r\<lparr>pos := p, yaw := yw, vel := v, total_time := t, near_sample := ns, picking_up := pu,
       send_pickup := (send_pickup r \<and> \<not> ack)\<rparr>"

text \<open>
  The state at mission start: forward mode, no frame seen yet, actuators at rest, a
  zero-initialised map of at least one cell.
\<close>

definition initial_state :: "'c dtype \<Rightarrow> 'c rover \<Rightarrow> bool" where
  "initial_state dt r \<longleftrightarrow>
     mode r = Forward \<and> nav_angles r = None \<and> nav_dists r = None \<and> rock_angle r = None
     \<and> throttle r = 0 \<and> brake r = 0 \<and> steer r = 0
     \<and> 1 \<le> grid_size (worldmap r) \<and> grid_cells (worldmap r) = (\<lambda>y x c. d_of_int dt 0)"

definition tick ::
  "'c dtype \<Rightarrow> image \<Rightarrow> mask \<Rightarrow> real \<times> real \<Rightarrow> real \<Rightarrow> real \<Rightarrow> real \<Rightarrow> bool \<Rightarrow> bool \<Rightarrow> bool \<Rightarrow>
   'c rover \<Rightarrow> py_fault + 'c rover" where
  "tick dt warped valid p yw v t ns pu ack r =
     decision_step (perception_step dt warped valid (telemetry r p yw v t ns pu ack))"

inductive reachable :: "'c dtype \<Rightarrow> 'c rover \<Rightarrow> bool" for dt :: "'c dtype" where
  start: "initial_state dt r \<Longrightarrow> reachable dt r"
| step: "reachable dt r \<Longrightarrow> tick dt warped valid p yw v t ns pu ack r = Inr r' \<Longrightarrow> reachable dt r'"

text \<open>
  The same loop from the camera frame: the bridge writes the frame into \<open>Rover.img\<close>
  and the code's \<open>perception_step\<close> rectifies it first (\<open>perception_camera\<close>). The
  camera loop runs on frames of the simulator's fixed size \<open>rows\<close> by \<open>cols\<close>.
\<close>

definition camera_tick ::
  "cv2 \<Rightarrow> 'c dtype \<Rightarrow> image \<Rightarrow> real \<times> real \<Rightarrow> real \<Rightarrow> real \<Rightarrow> real \<Rightarrow> bool \<Rightarrow> bool \<Rightarrow> bool \<Rightarrow>
   'c rover \<Rightarrow> py_fault + 'c rover" where
  "camera_tick cv dt img p yw v t ns pu ack r =
     decision_step (perception_camera cv dt img (telemetry r p yw v t ns pu ack))"

inductive camera_reachable :: "cv2 \<Rightarrow> 'c dtype \<Rightarrow> nat \<Rightarrow> nat \<Rightarrow> 'c rover \<Rightarrow> bool"
  for cv :: cv2 and dt :: "'c dtype" and rows :: nat and cols :: nat where
  start: "initial_state dt r \<Longrightarrow> wf_vision rows cols r \<Longrightarrow> camera_reachable cv dt rows cols r"
| step: "camera_reachable cv dt rows cols r \<Longrightarrow> wf_image rows cols img \<Longrightarrow>
         camera_tick cv dt img p yw v t ns pu ack r = Inr r' \<Longrightarrow> camera_reachable cv dt rows cols r'"

section \<open>The mission invariant\<close>

definition mission_inv :: "'c rover \<Rightarrow> bool" where
  "mission_inv r \<longleftrightarrow>
     (mode r \<noteq> Stop \<longrightarrow> brake r = 0) \<and> \<bar>steer r\<bar> \<le> 15
     \<and> \<bar>throttle r\<bar> \<le> 3 / 2 * \<bar>throttle_set r\<bar>
     \<and> (mode r = Collect \<longrightarrow> (\<exists>angs. rock_angle r = Some angs \<and> angs \<noteq> []))
     \<and> 1 \<le> grid_size (worldmap r)"

lemma mission_inv_start: "initial_state dt r \<Longrightarrow> mission_inv r"
  by (simp add: initial_state_def mission_inv_def)

lemma telemetry_fields [simp]:
  "mode (telemetry r p yw v t ns pu ack) = mode r"
  "brake (telemetry r p yw v t ns pu ack) = brake r"
  "steer (telemetry r p yw v t ns pu ack) = steer r"
  "throttle (telemetry r p yw v t ns pu ack) = throttle r"
  "throttle_set (telemetry r p yw v t ns pu ack) = throttle_set r"
  "rock_angle (telemetry r p yw v t ns pu ack) = rock_angle r"
  "worldmap (telemetry r p yw v t ns pu ack) = worldmap r"
  by (simp_all add: telemetry_def)

lemma mission_inv_perception:
  assumes "mission_inv r"
  shows "mission_inv (perception_step dt w v (telemetry r p yw vl t ns pu ack))"
proof -
  let ?q = "perception_step dt w v (telemetry r p yw vl t ns pu ack)"
  have "mode ?q = Collect \<longrightarrow> (\<exists>angs. rock_angle ?q = Some angs \<and> angs \<noteq> [])"
    using assms rock_angle_after_perception [of w dt v] perception_step_rock_angle [of dt w v]
    by (cases "np_any (rock_thresh w)") (auto simp: mission_inv_def frame_simps)
  with assms show ?thesis by (simp add: mission_inv_def frame_simps)
qed

lemma mission_inv_decision:
  assumes "mission_inv q" and "decision_step q = Inr r'"
    and "rock_in_view q \<longrightarrow> (\<exists>angs. rock_angle q = Some angs \<and> angs \<noteq> [])"
  shows "mission_inv r'"
proof -
  have f: "ctrl_frame q r'" using decision_step_frame [OF assms(2)] .
  have "mode r' = Collect \<longrightarrow> (\<exists>angs. rock_angle r' = Some angs \<and> angs \<noteq> [])"
    using assms decision_step_collect_entry [OF assms(2)] f by (auto simp: mission_inv_def ctrl_frame_def)
  moreover have "grid_size (worldmap r') = grid_size (worldmap q)" using f by (simp add: ctrl_frame_def)
  ultimately show ?thesis
    using assms(1) decision_step_brake [OF assms(2)] decision_step_steer [OF assms(2)]
      decision_step_throttle [OF assms(2)]
    by (simp add: mission_inv_def)
qed

lemma mission_inv_tick:
  assumes "mission_inv r" and "tick dt w v p yw vl t ns pu ack r = Inr r'"
  shows "mission_inv r'"
proof -
  let ?q = "perception_step dt w v (telemetry r p yw vl t ns pu ack)"
  have rv: "rock_in_view ?q \<longrightarrow> (\<exists>angs. rock_angle ?q = Some angs \<and> angs \<noteq> [])"
    using rock_view_after_perception rock_angle_after_perception by metis
  have d: "decision_step ?q = Inr r'" using assms(2) by (simp add: tick_def)
  show ?thesis by (rule mission_inv_decision [OF mission_inv_perception [OF assms(1)] d rv])
qed

lemma reachable_mission_inv: "reachable dt r \<Longrightarrow> mission_inv r"
proof (induction rule: reachable.induct)
  case (start r)
  then show ?case by (rule mission_inv_start)
next
  case (step r warped valid p yw v t ns pu ack r')
  then show ?case using mission_inv_tick by blast
qed

lemma tick_total:
  assumes "mission_inv r"
  shows "\<exists>r'. tick dt w v p yw vl t ns pu ack r = Inr r'"
proof -
  let ?q = "perception_step dt w v (telemetry r p yw vl t ns pu ack)"
  have "mission_inv ?q" using mission_inv_perception [OF assms] .
  then have "mode ?q = Collect \<Longrightarrow> \<exists>angs. rock_angle ?q = Some angs \<and> angs \<noteq> []"
    by (simp add: mission_inv_def)
  with perception_step_nav_consistent show ?thesis
    unfolding tick_def by (blast intro: decision_step_total)
qed

lemma telemetry_vision [simp]: "vision_image (telemetry r p yw v t ns pu ack) = vision_image r"
  by (simp add: telemetry_def)

lemma wf_vision_ctrl_frame: "ctrl_frame r r' \<Longrightarrow> wf_vision rows cols r' = wf_vision rows cols r"
  by (simp add: ctrl_frame_def wf_vision_def)

section \<open>A run that reaches the collect mode\<close>

lemma demo_rover_initial: "initial_state sat_u8 demo_rover"
  by (simp add: initial_state_def demo_rover_def sat_u8_def np_clip_def)

lemma demo_collect_reachable:
  "reachable sat_u8 ((perception_step sat_u8 [[(200, 150, 10)]] [[True]]
                       (telemetry demo_rover (100, 100) 0 0 0 False False False))
                     \<lparr>mode := Collect, time_collecting_start := 0\<rparr>)"
proof -
  let ?q = "perception_step sat_u8 [[(200, 150, 10)]] [[True]] (telemetry demo_rover (100, 100) 0 0 0 False False False)"
  have "np_any (rock_thresh [[(200, 150, 10)]])"
    by (simp add: np_any_def rock_thresh_def generic_threshold_def)
  then have view: "rock_in_view ?q" by (simp add: rock_view_after_perception)
  have m: "mode ?q = Forward" and n: "near_sample ?q = False" and t: "total_time ?q = 0"
    by (simp_all add: frame_simps demo_rover_def telemetry_def)
  obtain angs where "nav_angles ?q = Some angs" using perception_step_nav(1) by blast
  with view m n t have "tick sat_u8 [[(200, 150, 10)]] [[True]] (100, 100) 0 0 0 False False False demo_rover
                          = Inr (?q\<lparr>mode := Collect, time_collecting_start := 0\<rparr>)"
    by (simp add: tick_def decision_step_def decision_forward_def pickup_override_idle)
  then show ?thesis by (rule reachable.step [OF reachable.start [OF demo_rover_initial]])
qed

end
