(* ===== verification/Runs.thy ===== *)
theory Runs
  imports Mission
begin

text \<open>
  Finite runs of the mission loop. A run is a list of tick inputs (the telemetry values
  and the rectified frame of each tick), and \<open>run_ticks\<close> threads the state through the
  ticks in order, stopping at the first fault. Proved here: the two
  dwell timers of the controller end their modes: the stuck mode's back-up manoeuvre by
  the first tick more than 4 time units after it began, the collect mode by the first
  such tick whose frame no longer shows the sample. Both follow from one lemma on runs,
  \<open>timer_exit\<close>: a mode whose entry time a tick keeps, and which a tick leaves whenever
  its input meets an exit condition, is left by the first tick that meets it.
\<close>

record tick_in =
  in_frame :: image
  in_valid :: mask
  in_pos :: "real \<times> real"
  in_yaw :: real
  in_vel :: real
  in_time :: real
  in_near :: bool
  in_picking :: bool
  in_ack :: bool

definition tick_of :: "'c dtype \<Rightarrow> tick_in \<Rightarrow> 'c rover \<Rightarrow> py_fault + 'c rover" where
  "tick_of dt i r =
     tick dt (in_frame i) (in_valid i) (in_pos i) (in_yaw i) (in_vel i) (in_time i)
       (in_near i) (in_picking i) (in_ack i) r"

primrec run_ticks :: "'c dtype \<Rightarrow> tick_in list \<Rightarrow> 'c rover \<Rightarrow> py_fault + 'c rover" where
  "run_ticks dt [] r = Inr r"
| "run_ticks dt (i # is) r = py_bind (tick_of dt i r) (run_ticks dt is)"

text \<open>
  A stuck rover for the examples: one tick at time 5 with the rover stationary and a dark
  frame takes the demo rover from forward to stuck, with entry time 5.
\<close>

definition demo_stuck :: "int rover" where
  "demo_stuck =
     (perception_step sat_u8 [[(0, 0, 0)]] [[True]] (telemetry demo_rover (100, 100) 0 0 5 False False False))
       \<lparr>mode := Stuck, time_stuck_start := 5\<rparr>"

definition demo_collect :: "int rover" where
  "demo_collect =
     (perception_step sat_u8 [[(200, 150, 10)]] [[True]] (telemetry demo_rover (100, 100) 0 0 0 False False False))
       \<lparr>mode := Collect, time_collecting_start := 0\<rparr>"

definition demo_input :: "real \<Rightarrow> tick_in" where
  "demo_input t =
     \<lparr>in_frame = [[(0, 0, 0)]], in_valid = [[True]], in_pos = (100, 100), in_yaw = 0, in_vel = 0,
      in_time = t, in_near = False, in_picking = False, in_ack = False\<rparr>"

section \<open>Lemmas\<close>

lemma reachable_tick_of:
  "reachable dt r \<Longrightarrow> \<exists>r'. tick_of dt i r = Inr r' \<and> reachable dt r'"
  using tick_total [OF reachable_mission_inv] reachable.step unfolding tick_of_def by metis

text \<open>
  A tick runs the handler of the state's mode on the perceived state: perception always
  leaves navigation data, so the controller never takes its no-data branch.
\<close>

lemma tick_run_mode:
  assumes "tick dt w v p yw vl t ns pu ack r = Inr r'"
  obtains angs r1 where "nav_angles (perception_step dt w v (telemetry r p yw vl t ns pu ack)) = Some angs"
    and "run_mode (length angs) (perception_step dt w v (telemetry r p yw vl t ns pu ack)) = Inr r1"
    and "r' = pickup_override r1"
proof -
  let ?q = "perception_step dt w v (telemetry r p yw vl t ns pu ack)"
  obtain angs where a: "nav_angles ?q = Some angs" using perception_step_nav(1) by blast
  have "decision_step ?q = Inr r'" using assms by (simp add: tick_def)
  then show ?thesis
  proof (cases rule: decision_stepE)
    case no_data
    with a show ?thesis by simp
  next
    case (handler angs' r1)
    then show ?thesis using that by blast
  qed
qed

lemma telemetry_timers [simp]:
  "total_time (telemetry r p yw v t ns pu ack) = t"
  "time_stuck_start (telemetry r p yw v t ns pu ack) = time_stuck_start r"
  "time_collecting_start (telemetry r p yw v t ns pu ack) = time_collecting_start r"
  by (simp_all add: telemetry_def)

lemma pickup_override_timers [simp]:
  "time_stuck_start (pickup_override r) = time_stuck_start r"
  "time_collecting_start (pickup_override r) = time_collecting_start r"
  by (simp_all add: pickup_override_def)

text \<open>The stuck mode's timer: the entry time is kept, and the mode is left exactly on timeout.\<close>

lemma decision_stuck_timer:
  "mode r = Stuck \<Longrightarrow> decision_stuck r = Inr r' \<Longrightarrow>
   time_stuck_start r' = time_stuck_start r
   \<and> mode r' = (if total_time r - time_stuck_start r > 4 then Stop else Stuck)"
  by (cases "get_steer_angle r") (clarsimp simp: decision_stuck_def Let_def split: if_split_asm)+

lemma tick_stuck_timer:
  assumes "mode r = Stuck" and "tick dt w v p yw vl t ns pu ack r = Inr r'"
  shows "time_stuck_start r' = time_stuck_start r \<and> mode r' = (if t - time_stuck_start r > 4 then Stop else Stuck)"
  using assms(2)
proof (rule tick_run_mode)
  fix angs r1
  let ?q = "perception_step dt w v (telemetry r p yw vl t ns pu ack)"
  have m: "mode ?q = Stuck" using assms(1) by (simp add: frame_simps)
  assume rm: "run_mode (length angs) ?q = Inr r1" and r': "r' = pickup_override r1"
  have "decision_stuck ?q = Inr r1" using rm m by (simp add: run_mode_def)
  from decision_stuck_timer [OF m this] r' show ?thesis by (simp add: frame_simps)
qed

text \<open>
  The collect mode's timer: the entry time is kept, and a handler run that stays in the
  collect mode saw the sample or had not yet dwelt 4 time units.
\<close>

lemma decision_collect_timer:
  "mode r = Collect \<Longrightarrow> decision_collect r = Inr r' \<Longrightarrow>
   time_collecting_start r' = time_collecting_start r
   \<and> (mode r' = Collect \<longrightarrow> \<not> (total_time r - time_collecting_start r > 4 \<and> \<not> rock_in_view r))"
  by (cases "rock_steer r") (clarsimp simp: decision_collect_def Let_def rock_in_view_def split: if_split_asm)+

lemma tick_collect_timer:
  assumes "mode r = Collect" and "tick dt w v p yw vl t ns pu ack r = Inr r'"
  shows "time_collecting_start r' = time_collecting_start r
         \<and> (mode r' = Collect \<longrightarrow> \<not> (t - time_collecting_start r > 4 \<and> \<not> np_any (rock_thresh w)))"
  using assms(2)
proof (rule tick_run_mode)
  fix angs r1
  let ?q = "perception_step dt w v (telemetry r p yw vl t ns pu ack)"
  have m: "mode ?q = Collect" using assms(1) by (simp add: frame_simps)
  assume rm: "run_mode (length angs) ?q = Inr r1" and r': "r' = pickup_override r1"
  have "decision_collect ?q = Inr r1" using rm m by (simp add: run_mode_def)
  from decision_collect_timer [OF m this] r' show ?thesis
    by (simp add: frame_simps rock_view_after_perception)
qed

text \<open>
  Exit by a dwell timer, for any mode \<open>M\<close> with entry time \<open>tm\<close> and exit condition
  \<open>ex\<close> on a tick's input: if every tick from a reachable state in \<open>M\<close> that stays in
  \<open>M\<close> keeps the entry time and did not meet the exit condition, then a run whose
  \<open>k\<close>-th tick meets it has left \<open>M\<close> after at most \<open>k + 1\<close> ticks.
\<close>

lemma timer_exit:
  assumes step: "\<And>r i r'. mode r = M \<Longrightarrow> tick_of dt i r = Inr r' \<Longrightarrow> mode r' = M \<Longrightarrow>
                   tm r' = tm r \<and> \<not> ex i (tm r)"
    and "reachable dt r" and "mode r = M" and "k < length ins" and "ex (ins ! k) (tm r)"
  shows "\<exists>j rj. j \<le> Suc k \<and> run_ticks dt (take j ins) r = Inr rj \<and> mode rj \<noteq> M"
  using assms(2-)
proof (induction ins arbitrary: r k)
  case (Cons i ins)
  obtain r1 where t1: "tick_of dt i r = Inr r1" and re1: "reachable dt r1"
    using reachable_tick_of [OF Cons.prems(1)] by blast
  show ?case
  proof (cases "mode r1 = M")
    case False
    then show ?thesis using t1 by (intro exI [of _ 1] exI [of _ r1]) simp
  next
    case True
    with step [OF Cons.prems(2) t1] have tm: "tm r1 = tm r" and nex: "\<not> ex i (tm r)" by auto
    with Cons.prems(4) obtain k' where k: "k = Suc k'" by (cases k) auto
    with Cons.prems(3,4) tm have "k' < length ins" "ex (ins ! k') (tm r1)" by simp_all
    from Cons.IH [OF re1 True this] obtain j rj
      where "j \<le> Suc k'" "run_ticks dt (take j ins) r1 = Inr rj" "mode rj \<noteq> M" by blast
    with t1 k show ?thesis by (intro exI [of _ "Suc j"] exI [of _ rj]) simp
  qed
qed simp

lemma demo_stuck_reachable: "reachable sat_u8 demo_stuck"
proof -
  let ?q = "perception_step sat_u8 [[(0, 0, 0)]] [[True]] (telemetry demo_rover (100, 100) 0 0 5 False False False)"
  have "\<not> np_any (rock_thresh [[(0, 0, 0)]])"
    by (simp add: np_any_def rock_thresh_def generic_threshold_def)
  then have view: "\<not> rock_in_view ?q" by (simp add: rock_view_after_perception)
  have m: "mode ?q = Forward" and n: "near_sample ?q = False" and t: "total_time ?q = 5"
    and f: "time_forward_start ?q = 0" and v: "vel ?q = 0"
    by (simp_all add: frame_simps demo_rover_def telemetry_def)
  obtain angs where "nav_angles ?q = Some angs" using perception_step_nav(1) by blast
  with view m n t f v have "tick sat_u8 [[(0, 0, 0)]] [[True]] (100, 100) 0 0 5 False False False demo_rover = Inr demo_stuck"
    by (simp add: tick_def decision_step_def decision_forward_def pickup_override_idle demo_stuck_def)
  then show ?thesis by (rule reachable.step [OF reachable.start [OF demo_rover_initial]])
qed

text \<open>
  C7. The stuck mode's back-up manoeuvre ends: from a reachable state in the stuck mode,
  if the \<open>k\<close>-th tick of a run comes more than 4 time units after the stuck mode was
  entered, the rover has left the stuck mode after at most \<open>k + 1\<close> ticks.
\<close>

theorem stuck_mode_ends:
  assumes "reachable dt r" and "mode r = Stuck" and "k < length ins"
    and "in_time (ins ! k) - time_stuck_start r > 4"
  shows "\<exists>j rj. j \<le> Suc k \<and> run_ticks dt (take j ins) r = Inr rj \<and> mode rj \<noteq> Stuck"
proof -
  have step: "time_stuck_start r' = time_stuck_start r \<and> \<not> in_time i - time_stuck_start r > 4"
    if "mode r = Stuck" and "tick_of dt i r = Inr r'" and "mode r' = Stuck" for r i r'
  proof -
    have "time_stuck_start r' = time_stuck_start r
          \<and> mode r' = (if in_time i - time_stuck_start r > 4 then Stop else Stuck)"
      using tick_stuck_timer [OF that(1)] that(2) unfolding tick_of_def by blast
    with that(3) show ?thesis by (auto split: if_split_asm)
  qed
  show ?thesis
    by (rule timer_exit [where tm = time_stuck_start and ex = "\<lambda>i ts. in_time i - ts > 4", OF step assms])
qed

theorem stuck_mode_ends_witness:
  "reachable sat_u8 demo_stuck \<and> mode demo_stuck = Stuck \<and> 0 < length [demo_input 10]
   \<and> in_time ([demo_input 10] ! 0) - time_stuck_start demo_stuck > 4
   \<and> (\<exists>j rj. j \<le> Suc 0 \<and> run_ticks sat_u8 (take j [demo_input 10]) demo_stuck = Inr rj \<and> mode rj \<noteq> Stuck)"
proof -
  have m: "mode demo_stuck = Stuck" and t: "time_stuck_start demo_stuck = 5"
    by (simp_all add: demo_stuck_def)
  have "in_time ([demo_input 10] ! 0) - time_stuck_start demo_stuck > 4"
    by (simp add: t demo_input_def)
  with stuck_mode_ends [OF demo_stuck_reachable m, of 0 "[demo_input 10]"] demo_stuck_reachable m
  show ?thesis by simp
qed

lemma demo_collect_reachable_run: "reachable sat_u8 demo_collect"
  unfolding demo_collect_def by (rule demo_collect_reachable)

text \<open>
  C8. The collect mode ends once the sample is out of sight: from a reachable state in the
  collect mode, if the \<open>k\<close>-th tick of a run comes more than 4 time units after the collect
  mode was entered and its frame has no sample pixels, the rover has left the collect mode
  after at most \<open>k + 1\<close> ticks.
\<close>

theorem collect_mode_ends:
  assumes "reachable dt r" and "mode r = Collect" and "k < length ins"
    and "in_time (ins ! k) - time_collecting_start r > 4"
    and "\<not> np_any (rock_thresh (in_frame (ins ! k)))"
  shows "\<exists>j rj. j \<le> Suc k \<and> run_ticks dt (take j ins) r = Inr rj \<and> mode rj \<noteq> Collect"
proof -
  have step: "time_collecting_start r' = time_collecting_start r
              \<and> \<not> (in_time i - time_collecting_start r > 4 \<and> \<not> np_any (rock_thresh (in_frame i)))"
    if "mode r = Collect" and "tick_of dt i r = Inr r'" and "mode r' = Collect" for r i r'
    using tick_collect_timer [OF that(1)] that(2,3) unfolding tick_of_def by blast
  have ex: "in_time (ins ! k) - time_collecting_start r > 4 \<and> \<not> np_any (rock_thresh (in_frame (ins ! k)))"
    using assms(4,5) ..
  show ?thesis
    by (rule timer_exit [where tm = time_collecting_start
          and ex = "\<lambda>i tc. in_time i - tc > 4 \<and> \<not> np_any (rock_thresh (in_frame i))", OF step assms(1-3) ex])
qed

theorem collect_mode_ends_witness:
  "reachable sat_u8 demo_collect \<and> mode demo_collect = Collect \<and> 0 < length [demo_input 10]
   \<and> in_time ([demo_input 10] ! 0) - time_collecting_start demo_collect > 4
   \<and> \<not> np_any (rock_thresh (in_frame ([demo_input 10] ! 0)))
   \<and> (\<exists>j rj. j \<le> Suc 0 \<and> run_ticks sat_u8 (take j [demo_input 10]) demo_collect = Inr rj
                 \<and> mode rj \<noteq> Collect)"
proof -
  have m: "mode demo_collect = Collect" and t: "time_collecting_start demo_collect = 0"
    by (simp_all add: demo_collect_def)
  have "in_time ([demo_input 10] ! 0) - time_collecting_start demo_collect > 4"
    by (simp add: t demo_input_def)
  moreover have "\<not> np_any (rock_thresh (in_frame ([demo_input 10] ! 0)))"
    by (simp add: demo_input_def np_any_def rock_thresh_def generic_threshold_def)
  ultimately show ?thesis
    using collect_mode_ends [OF demo_collect_reachable_run m, of 0 "[demo_input 10]"] demo_collect_reachable_run m
    by simp
qed

end
