(* ===== verification/NavSpec.thy ===== *)
theory NavSpec
  imports Decision
begin

text \<open>
  The navigation controller's contract as spec section 4.5 states it, independent of the
  rover record: configuration \<open>cfg\<close>, the per-tick inputs \<open>ctrl_in\<close>, the controller's
  own state \<open>ctrl\<close> (mode, the three actuator outputs, the pickup request and one
  mode-entry time), and the transition table \<open>mode_rule\<close>, one rule per bullet of the
  spec, followed by the cross-cutting pickup override. The steering rules are parameters:
  \<open>sa\<close> is the value of the terrain steering rule and \<open>ra\<close> that of the sample steering
  rule on this tick's data. The refinement lemma shows that \<open>decision_step\<close> implements
  the table with \<open>sa\<close> and \<open>ra\<close> the values of \<open>get_steer_angle\<close> and \<open>rock_steer\<close>;
  the code keeps one entry timestamp per mode, of which the abstraction reads the one of
  the current mode.
\<close>

record cfg =
  k_throttle :: real
  k_brake :: real
  k_maxvel :: real
  k_stop :: nat
  k_go :: nat

record ctrl_in =
  i_nav :: "nat option"
  i_sample :: bool
  i_vel :: real
  i_time :: real
  i_near :: bool
  i_picking :: bool

record ctrl =
  c_mode :: mode
  c_throttle :: real
  c_brake :: real
  c_steer :: real
  c_pickup :: bool
  c_entry :: real

text \<open>
  The transition table. The stop mode records no entry time, so a rule entering it leaves
  \<open>c_entry\<close> free (\<open>e\<close>).
\<close>

inductive mode_rule :: "cfg \<Rightarrow> real \<Rightarrow> real \<Rightarrow> ctrl_in \<Rightarrow> ctrl \<Rightarrow> ctrl \<Rightarrow> bool"
  for k :: cfg and sa :: real and ra :: real where
  bootstrap: "i_nav i = None \<Longrightarrow>
    c' = c\<lparr>c_throttle := k_throttle k, c_steer := 0, c_brake := 0\<rparr> \<Longrightarrow> mode_rule k sa ra i c c'"
| fwd_collect: "i_nav i = Some n \<Longrightarrow> c_mode c = Forward \<Longrightarrow> i_sample i \<Longrightarrow>
    c' = c\<lparr>c_mode := Collect, c_entry := i_time i\<rparr> \<Longrightarrow> mode_rule k sa ra i c c'"
| fwd_stuck: "i_nav i = Some n \<Longrightarrow> c_mode c = Forward \<Longrightarrow> \<not> i_sample i \<Longrightarrow>
    i_time i - c_entry c > 4 \<Longrightarrow> \<bar>i_vel i\<bar> < 0.01 \<Longrightarrow>
    c' = c\<lparr>c_mode := Stuck, c_entry := i_time i\<rparr> \<Longrightarrow> mode_rule k sa ra i c c'"
| fwd_cruise: "i_nav i = Some n \<Longrightarrow> c_mode c = Forward \<Longrightarrow> \<not> i_sample i \<Longrightarrow>
    \<not> (i_time i - c_entry c > 4 \<and> \<bar>i_vel i\<bar> < 0.01) \<Longrightarrow> k_stop k \<le> n \<Longrightarrow>
    c' = c\<lparr>c_throttle := (if i_vel i < k_maxvel k then k_throttle k else 0), c_brake := 0,
           c_steer := sa\<rparr> \<Longrightarrow> mode_rule k sa ra i c c'"
| fwd_stop: "i_nav i = Some n \<Longrightarrow> c_mode c = Forward \<Longrightarrow> \<not> i_sample i \<Longrightarrow>
    \<not> (i_time i - c_entry c > 4 \<and> \<bar>i_vel i\<bar> < 0.01) \<Longrightarrow> n < k_stop k \<Longrightarrow>
    c' = c\<lparr>c_throttle := 0, c_brake := k_brake k, c_steer := 0, c_mode := Stop, c_entry := e\<rparr> \<Longrightarrow>
    mode_rule k sa ra i c c'"
| stop_brake: "i_nav i = Some n \<Longrightarrow> c_mode c = Stop \<Longrightarrow> i_vel i > 0.2 \<Longrightarrow>
    c' = c\<lparr>c_throttle := 0, c_brake := k_brake k, c_steer := 0\<rparr> \<Longrightarrow> mode_rule k sa ra i c c'"
| stop_turn: "i_nav i = Some n \<Longrightarrow> c_mode c = Stop \<Longrightarrow> i_vel i \<le> 0.2 \<Longrightarrow> n < k_go k \<Longrightarrow>
    c' = c\<lparr>c_throttle := 0, c_brake := 0, c_steer := -15\<rparr> \<Longrightarrow> mode_rule k sa ra i c c'"
| stop_go: "i_nav i = Some n \<Longrightarrow> c_mode c = Stop \<Longrightarrow> i_vel i \<le> 0.2 \<Longrightarrow> k_go k \<le> n \<Longrightarrow>
    c' = c\<lparr>c_throttle := k_throttle k, c_brake := 0, c_steer := sa, c_mode := Forward,
           c_entry := i_time i\<rparr> \<Longrightarrow> mode_rule k sa ra i c c'"
| stuck: "i_nav i = Some n \<Longrightarrow> c_mode c = Stuck \<Longrightarrow>
    c1 = (if \<bar>i_vel i\<bar> < 0.05 then c\<lparr>c_steer := - sa\<rparr> else c)\<lparr>c_throttle := - (3 / 2) * k_throttle k\<rparr> \<Longrightarrow>
    c' = (if i_time i - c_entry c > 4 then c1\<lparr>c_mode := Stop, c_steer := 0, c_entry := e\<rparr> else c1) \<Longrightarrow>
    mode_rule k sa ra i c c'"
| collect: "i_nav i = Some n \<Longrightarrow> c_mode c = Collect \<Longrightarrow>
    c1 = c\<lparr>c_throttle := k_throttle k / 2, c_brake := 0, c_steer := ra\<rparr> \<Longrightarrow>
    c2 = (if \<bar>i_vel i\<bar> < 0.01 \<and> i_time i - c_entry c > 4
          then c1\<lparr>c_mode := Stuck, c_entry := i_time i\<rparr> else c1) \<Longrightarrow>
    c' = (if \<not> i_sample i \<and> i_time i - c_entry c > 4 then c2\<lparr>c_mode := Stop, c_entry := e\<rparr> else c2) \<Longrightarrow>
    mode_rule k sa ra i c c'"

text \<open>The cross-cutting pickup override, after the mode rule.\<close>

definition override :: "ctrl_in \<Rightarrow> ctrl \<Rightarrow> ctrl" where
  "override i c =
     (if i_near i \<and> \<not> i_picking i then c\<lparr>c_throttle := 0, c_brake := 0, c_pickup := True\<rparr> else c)"

inductive ctrl_spec :: "cfg \<Rightarrow> real \<Rightarrow> real \<Rightarrow> ctrl_in \<Rightarrow> ctrl \<Rightarrow> ctrl \<Rightarrow> bool"
  for k :: cfg and sa :: real and ra :: real where
  tick: "mode_rule k sa ra i c c1 \<Longrightarrow> ctrl_spec k sa ra i c (override i c1)"

code_pred mode_rule .

section \<open>Abstraction of the rover state\<close>

definition entry_time :: "'c rover \<Rightarrow> real" where
  "entry_time r =
     (case mode r of
        Forward \<Rightarrow> time_forward_start r
      | Stop \<Rightarrow> 0
      | Stuck \<Rightarrow> time_stuck_start r
      | Collect \<Rightarrow> time_collecting_start r)"

definition abs_cfg :: "'c rover \<Rightarrow> cfg" where
  "abs_cfg r = \<lparr>k_throttle = throttle_set r, k_brake = brake_set r, k_maxvel = max_vel r,
                k_stop = stop_forward r, k_go = go_forward r\<rparr>"

definition abs_in :: "'c rover \<Rightarrow> ctrl_in" where
  "abs_in r = \<lparr>i_nav = map_option length (nav_angles r), i_sample = rock_in_view r, i_vel = vel r,
               i_time = total_time r, i_near = near_sample r, i_picking = picking_up r\<rparr>"

definition abs_ctrl :: "'c rover \<Rightarrow> ctrl" where
  "abs_ctrl r = \<lparr>c_mode = mode r, c_throttle = throttle r, c_brake = brake r, c_steer = steer r,
                 c_pickup = send_pickup r, c_entry = entry_time r\<rparr>"

text \<open>The values of the two steering rules on a state (0 where the rule faults).\<close>

definition steer_value :: "'c rover \<Rightarrow> real" where
  "steer_value r = (case get_steer_angle r of Inr a \<Rightarrow> a | Inl _ \<Rightarrow> 0)"

definition sample_steer_value :: "'c rover \<Rightarrow> real" where
  "sample_steer_value r = (case rock_steer r of Inr a \<Rightarrow> a | Inl _ \<Rightarrow> 0)"

text \<open>
  The mode graph of the spec's table: besides staying put, forward may go to collect,
  stuck or stop, stop only back to forward, stuck only to stop, collect to stuck or stop.
\<close>

definition spec_edge :: "mode \<Rightarrow> mode \<Rightarrow> bool" where
  "spec_edge a b \<longleftrightarrow>
     a = b \<or> (a, b) \<in> {(Forward, Collect), (Forward, Stuck), (Forward, Stop), (Stop, Forward),
                      (Stuck, Stop), (Collect, Stuck), (Collect, Stop)}"

section \<open>The controller implements the table\<close>

lemma ctrl_frame_abs:
  "ctrl_frame r q \<Longrightarrow> abs_in q = abs_in r"
  "ctrl_frame r q \<Longrightarrow> abs_cfg q = abs_cfg r"
  by (simp_all add: ctrl_frame_def abs_in_def abs_cfg_def rock_in_view_def)

lemma abs_ctrl_pickup: "abs_ctrl (pickup_override r) = override (abs_in r) (abs_ctrl r)"
  by (cases "mode r") (simp_all add: pickup_override_def override_def abs_ctrl_def abs_in_def entry_time_def)

lemmas abs_defs = abs_in_def abs_ctrl_def abs_cfg_def entry_time_def steer_value_def sample_steer_value_def

lemma forward_refines:
  "decision_forward n r = Inr r' \<Longrightarrow> mode r = Forward \<Longrightarrow> i_nav (abs_in r) = Some n \<Longrightarrow>
   mode_rule (abs_cfg r) (steer_value r) ra (abs_in r) (abs_ctrl r) (abs_ctrl r')"
  by (cases "get_steer_angle r")
     (auto simp: decision_forward_def Let_def abs_defs intro: mode_rule.intros split: if_split_asm)

lemma stop_refines:
  "decision_stop n r = Inr r' \<Longrightarrow> mode r = Stop \<Longrightarrow> i_nav (abs_in r) = Some n \<Longrightarrow>
   mode_rule (abs_cfg r) (steer_value r) ra (abs_in r) (abs_ctrl r) (abs_ctrl r')"
  by (cases "get_steer_angle r")
     (auto simp: decision_stop_def Let_def abs_defs intro: mode_rule.intros split: if_split_asm)

lemma stuck_refines:
  "decision_stuck r = Inr r' \<Longrightarrow> mode r = Stuck \<Longrightarrow> i_nav (abs_in r) = Some n \<Longrightarrow>
   mode_rule (abs_cfg r) (steer_value r) ra (abs_in r) (abs_ctrl r) (abs_ctrl r')"
  by (cases "get_steer_angle r")
     (auto simp: decision_stuck_def Let_def abs_defs intro: mode_rule.intros split: if_split_asm)

lemma collect_refines:
  "decision_collect r = Inr r' \<Longrightarrow> mode r = Collect \<Longrightarrow> i_nav (abs_in r) = Some n \<Longrightarrow>
   mode_rule (abs_cfg r) sa (sample_steer_value r) (abs_in r) (abs_ctrl r) (abs_ctrl r')"
  by (cases "rock_steer r")
     (auto simp: decision_collect_def Let_def abs_defs rock_in_view_def intro: mode_rule.intros split: if_split_asm)

lemma run_mode_refines:
  assumes "run_mode n r = Inr r'" and "i_nav (abs_in r) = Some n"
  shows "mode_rule (abs_cfg r) (steer_value r) (sample_steer_value r) (abs_in r) (abs_ctrl r) (abs_ctrl r')"
  using assms
  by (cases "mode r") (simp_all add: run_mode_def forward_refines stop_refines stuck_refines collect_refines)

text \<open>
  C9. Refinement of the controller contract: every successful \<open>decision_step\<close> is a
  transition of the spec's table followed by the pickup override, with the terrain and
  sample steering values those of \<open>get_steer_angle\<close> and \<open>rock_steer\<close>.
\<close>

theorem decision_step_refines:
  assumes "decision_step r = Inr r'"
  shows "ctrl_spec (abs_cfg r) (steer_value r) (sample_steer_value r) (abs_in r) (abs_ctrl r) (abs_ctrl r')"
  using assms
proof (cases rule: decision_stepE)
  case no_data
  let ?q = "r\<lparr>throttle := throttle_set r, steer := 0, brake := 0\<rparr>"
  have "mode_rule (abs_cfg r) (steer_value r) (sample_steer_value r) (abs_in r) (abs_ctrl r) (abs_ctrl ?q)"
    using no_data(1) by (intro mode_rule.bootstrap) (simp_all add: abs_defs split: mode.split)
  moreover have "abs_in ?q = abs_in r" by (simp add: abs_in_def rock_in_view_def)
  then have "abs_ctrl r' = override (abs_in r) (abs_ctrl ?q)"
    using no_data(2) abs_ctrl_pickup [of ?q] by simp
  ultimately show ?thesis by (simp add: ctrl_spec.tick)
next
  case (handler angs r1)
  have "i_nav (abs_in r) = Some (length angs)" using handler(1) by (simp add: abs_in_def)
  then have "mode_rule (abs_cfg r) (steer_value r) (sample_steer_value r) (abs_in r) (abs_ctrl r) (abs_ctrl r1)"
    using handler(2) by (rule run_mode_refines [rotated])
  moreover have "abs_in r1 = abs_in r" using run_mode_frame [OF handler(2)] by (rule ctrl_frame_abs)
  ultimately show ?thesis
    using ctrl_spec.tick handler(3) abs_ctrl_pickup by metis
qed

lemma mode_rule_edge: "mode_rule k sa ra i c c' \<Longrightarrow> spec_edge (c_mode c) (c_mode c')"
  by (erule mode_rule.cases) (auto simp: spec_edge_def)

theorem decision_step_refines_witness:
  "decision_step (demo_rover\<lparr>nav_angles := Some [0.5]\<rparr>)
     = Inr (demo_rover\<lparr>nav_angles := Some [0.5], throttle := 0, brake := 10, steer := 0, mode := Stop\<rparr>)
   \<and> ctrl_spec (abs_cfg (demo_rover\<lparr>nav_angles := Some [0.5]\<rparr>))
       (steer_value (demo_rover\<lparr>nav_angles := Some [0.5]\<rparr>))
       (sample_steer_value (demo_rover\<lparr>nav_angles := Some [0.5]\<rparr>))
       (abs_in (demo_rover\<lparr>nav_angles := Some [0.5]\<rparr>)) (abs_ctrl (demo_rover\<lparr>nav_angles := Some [0.5]\<rparr>))
       (abs_ctrl (demo_rover\<lparr>nav_angles := Some [0.5], throttle := 0, brake := 10, steer := 0, mode := Stop\<rparr>))"
proof -
  have h: "decision_step (demo_rover\<lparr>nav_angles := Some [0.5]\<rparr>)
     = Inr (demo_rover\<lparr>nav_angles := Some [0.5], throttle := 0, brake := 10, steer := 0, mode := Stop\<rparr>)"
    by (simp add: decision_step_def decision_forward_def pickup_override_def demo_rover_def rock_in_view_def)
  from h decision_step_refines [OF h] show ?thesis by blast
qed

text \<open>
  C10. The controller moves only along the spec's mode graph: stop never goes to stuck
  or collect, stuck never to forward or collect, collect never back to forward.
\<close>

theorem decision_step_mode_edges:
  assumes "decision_step r = Inr r'"
  shows "spec_edge (mode r) (mode r')"
  using assms
proof (cases rule: decision_stepE)
  case (handler angs r1)
  have "i_nav (abs_in r) = Some (length angs)" using handler(1) by (simp add: abs_in_def)
  with handler(2) have "spec_edge (c_mode (abs_ctrl r)) (c_mode (abs_ctrl r1))"
    by (blast intro: mode_rule_edge run_mode_refines)
  with handler(3) show ?thesis by (simp add: abs_ctrl_def)
qed (simp add: spec_edge_def)

theorem decision_step_mode_edges_witness:
  "decision_step (demo_rover\<lparr>nav_angles := Some [0.5]\<rparr>)
     = Inr (demo_rover\<lparr>nav_angles := Some [0.5], throttle := 0, brake := 10, steer := 0, mode := Stop\<rparr>)
   \<and> spec_edge Forward Stop"
proof -
  have h: "decision_step (demo_rover\<lparr>nav_angles := Some [0.5]\<rparr>)
     = Inr (demo_rover\<lparr>nav_angles := Some [0.5], throttle := 0, brake := 10, steer := 0, mode := Stop\<rparr>)"
    by (simp add: decision_step_def decision_forward_def pickup_override_def demo_rover_def rock_in_view_def)
  from h decision_step_mode_edges [OF h] show ?thesis by (simp add: demo_rover_def)
qed

end
