(* ===== verification/Spec2Isabelle.thy ===== *)
theory Spec2Isabelle
  imports Runs NavSpec
begin

text \<open>
  \<^bold>\<open>A verification development for the RoboND rover (bveber/RoboND-Rover-Project).\<close>

  \<^bold>\<open>The program.\<close> Two Python files drive a simulated rover. \<open>src/code/perception.py\<close>
  turns one rectified camera frame into navigable, wall, obstacle and sample masks,
  converts their pixels to rover-centric, polar and world coordinates, accumulates them
  into a persistent world map and stores the navigable pixels' angles and distances and
  the sample's angles in the rover state (\<open>perception_step\<close>).
  \<open>src/code/decision.py\<close> is a four-mode controller (forward, stop, stuck, collect)
  that reads those outputs with the rover's velocity and clock and writes throttle, brake,
  steering and a pickup request (\<open>decision_step\<close>). The simulator bridge, not among the
  repository's files, owns the state object, writes telemetry into it and calls the two
  steps once per frame, perception first.

  \<^bold>\<open>The library.\<close>
  \<^item> \<open>Prelude\<close>: how numpy arrays are read (float arrays as \<open>real list\<close>, 0/1 images
    as \<open>bool list list\<close>, RGB frames as rows of \<open>8 word\<close> triples, the world map as a
    \<open>grid\<close> record of its size and cells), the numpy primitives the code calls
    (\<open>np_clip\<close>, \<open>np_int\<close>, \<open>nonzero\<close>, \<open>np_any\<close>, \<open>np_mean\<close>, \<open>np_average\<close>,
    \<open>np_argmin\<close>), the fault type \<open>py_fault\<close> and its bind \<open>py_bind\<close>.
  \<^item> \<open>Geometry\<close> (perception.py lines 26--107): \<open>rover_coords\<close>, \<open>arctan2\<close>,
    \<open>to_polar_coords\<close>, \<open>rotate_pix\<close>, \<open>translate_pix\<close>, \<open>pix_to_world\<close>, with the
    one-point specification \<open>world_cell\<close>.
  \<^item> \<open>Classifier\<close> (lines 5--23, 145--147, 178): \<open>generic_threshold\<close> and the
    navigable, wall, sample and obstacle masks.
  \<^item> \<open>WorldMap\<close> (lines 164--170, 187): numpy fancy-index updates \<open>add_at\<close> and
    \<open>set_at\<close>, the six-line \<open>update_worldmap\<close>, and the array's dtype as an interface
    \<open>dtype\<close> with three instances (\<open>sat_u8\<close>, the spec's clamped accumulator;
    \<open>wrap_u8\<close>, numpy \<open>uint8\<close>; \<open>float_cells\<close>, numpy \<open>float64\<close>).
  \<^item> \<open>Rover\<close>: the state record (the fields the two files use) and the mode datatype.
  \<^item> \<open>Perspective\<close> (lines 110--121, 136--141): \<open>perspect_transform\<close> over the
    interface record \<open>cv2\<close> of the two OpenCV calls (with their output-size contract
    \<open>cv2_contract\<close>) and the calibration points \<open>calib_source\<close> and
    \<open>calib_destination\<close>.
  \<^item> \<open>Perception\<close> (lines 125--193): \<open>perception_step\<close>, lines 144--193 over the
    rectified frame and validity mask, and \<open>perception_camera\<close>, the whole function
    from the camera frame (calibration, \<open>perspect_transform\<close>, then \<open>perception_step\<close>).
  \<^item> \<open>Decision\<close> (decision.py): \<open>get_steer_angle\<close>, \<open>rock_steer\<close>, one handler per
    mode (\<open>decision_forward\<close>, \<open>decision_stop\<close>, \<open>decision_stuck\<close>,
    \<open>decision_collect\<close>), \<open>pickup_override\<close> and \<open>decision_step\<close>. Each returns
    \<open>Inl\<close> of a fault where Python raises or numpy yields NaN.
  \<^item> \<open>NavSpec\<close>: the controller's contract from spec section 4.5 as an abstract
    transition table (\<open>mode_rule\<close>, one rule per bullet, then the pickup
    \<open>override\<close>; \<open>ctrl_spec\<close>) over its own configuration, inputs and state, with
    the steering values as parameters, and the abstraction (\<open>abs_cfg\<close>, \<open>abs_in\<close>,
    \<open>abs_ctrl\<close>) of the rover state into it.
  \<^item> \<open>Mission\<close>: the bridge's \<open>telemetry\<close> update (modelled from the spec), one
    \<open>tick\<close> = telemetry, perception, decision, and the \<open>inductive\<close> set of
    \<open>reachable\<close> states of a run from an \<open>initial_state\<close>; the same loop from camera
    frames (\<open>camera_tick\<close>, \<open>camera_reachable\<close>).
  \<^item> \<open>Runs\<close>: finite runs, \<open>run_ticks\<close> over a list of tick inputs \<open>tick_in\<close>.
  \<^item> this theory: the properties of whole runs.

  \<^bold>\<open>What is proved.\<close> Geometry: the polar round trip, the clamping law of
  \<open>pix_to_world\<close>, its refinement by \<open>world_cell\<close>, the rotation laws, distance
  preservation, and that every image pixel lies ahead of the rover (distance at least 1,
  angle within 90 degrees). Classifier: the colour classes are disjoint, and the obstacle
  map is the valid non-navigable region. World map: the exact evidence one frame adds to a
  cell with the code's \<open>float64\<close> cells, and \<open>uint8\<close> wrap-around. Perception: the
  navigation data it leaves, the sample fields (the stale angles included), the marking
  of the nearest sample cell (with \<open>np.argmin\<close> correct), a frame that is all
  invalid changing nothing, and a black frame inside the valid region adding obstacle
  evidence at every valid pixel's cell (spec 4.4 says it leaves the map unchanged).
  Controller: the steering rule's zero cases and totality, and every transition the
  spec names; \<open>decision_step\<close> refines the abstract
  table (every tick is one of its transitions, with the code's steering values) and so
  moves only along the spec's mode graph. Whole runs (this theory and \<open>Runs\<close>): no
  tick ever faults, the brake is only applied in the stop mode, steering and throttle stay bounded, the collect mode always
  has a target; the stuck mode ends by the first tick more than 4 time units after it began, and the
  collect mode by the first such tick whose frame no longer shows the sample (both from
  one lemma on dwell timers, \<open>Runs.timer_exit\<close>).
  Camera level: a run of the code's full perception step, from camera frames, keeps the
  vision image of the frame's shape.

  \<^bold>\<open>Modelling choices.\<close> Floats are reals: rounding is not modelled, and
  \<open>np.int_\<close> is truncation towards zero of a real (huge floats, which overflow the C
  cast, do not arise from a 200-cell map and a 320-pixel image). Elementwise numpy operations on
  x and y arrays are \<open>map2\<close>; the lemmas state the equal lengths they need, and the
  pipeline is shown to produce them. A fault aborts the tick: the model keeps no partial
  writes of a handler that raised; the fault is the exception numpy raises
  (\<open>TypeError\<close>, \<open>ZeroDivisionError\<close>) or a NaN result. The numpy read is that of the
  versions the code was written for: \<open>np.float\<close> (removed in numpy 1.24) is the float
  conversion. No loop of the source can run forever: every
  definition is structural recursion or a non-recursive definition, so no fuel is needed.

  \<^bold>\<open>Not modelled.\<close> The pixel arithmetic inside the two OpenCV calls
  (the linear solve of \<open>getPerspectiveTransform\<close>, the inverse mapping and bilinear
  interpolation of \<open>warpPerspective\<close>): library code, specified only by the output
  size, so the matrix \<open>getPerspectiveTransform\<close> returns is left arbitrary. Also not
  modelled: the bridge's copy of the simulator's throttle and steering echo into the
  state before each tick (\<open>telemetry\<close> leaves both as the last decision set them), the display-only
  writes of vision-image channels 0 and 2 beyond their values, the \<open>print\<close> calls,
  the socket transport of the bridge, and the bridge's initial values beyond what
  \<open>initial_state\<close> requires. These are library code, I/O or code outside the
  repository; every other line of the two source files is modelled.

  \<^bold>\<open>What the modelling showed.\<close> The bearing of the last sample is never cleared
  (Perception), although the collect handler relies on it being there once set; a black valid frame adds obstacle evidence (Perception); the map is not
  clamped in the code, so \<open>uint8\<close> cells wrap and \<open>float64\<close> cells grow without bound
  (WorldMap); the pickup override's brake and the collect mode's slow-down are dead
  stores (Decision); the comments of decision.py give the stuck test and the back-up
  manoeuvre 2 seconds where the code waits more than 4 (Decision, NavSpec); and \<open>np.float\<close> ties the code to numpy before 1.24.
\<close>

section \<open>Properties of whole runs\<close>

text \<open>
  C1. No tick of a run ever faults: from every reachable state, for any telemetry and
  any rectified frame, perception followed by the controller completes with a new state,
  with no Python exception and no NaN command.
\<close>

theorem mission_tick_total:
  assumes "reachable dt r"
  shows "\<exists>r'. tick dt w v p yw vl t ns pu ack r = Inr r'"
  using tick_total [OF reachable_mission_inv [OF assms]] .

theorem mission_tick_total_witness:
  "\<exists>r'. tick sat_u8 [[(200, 150, 10)]] [[True]] (100, 100) 0 0 0 False False False demo_rover = Inr r'"
  using mission_tick_total [OF reachable.start [OF demo_rover_initial]] .

text \<open>
  C2. The brake is applied only in the stop mode: in every reachable state whose mode
  is not stop the brake is 0.
\<close>

theorem mission_brake_only_stopped:
  assumes "reachable dt r" and "mode r \<noteq> Stop"
  shows "brake r = 0"
  using reachable_mission_inv [OF assms(1)] assms(2) by (simp add: mission_inv_def)

theorem mission_brake_only_stopped_witness:
  "brake ((perception_step sat_u8 [[(200, 150, 10)]] [[True]] (telemetry demo_rover (100, 100) 0 0 0 False False False))
          \<lparr>mode := Collect, time_collecting_start := 0\<rparr>) = 0"
  using mission_brake_only_stopped [OF demo_collect_reachable] by simp

text \<open>C4. In every reachable state the steering command lies within \<open>[-15, 15]\<close> degrees.\<close>

theorem mission_steer_bounded:
  assumes "reachable dt r"
  shows "\<bar>steer r\<bar> \<le> 15"
  using reachable_mission_inv [OF assms] by (simp add: mission_inv_def)

theorem mission_steer_bounded_witness:
  "\<bar>steer ((perception_step sat_u8 [[(200, 150, 10)]] [[True]] (telemetry demo_rover (100, 100) 0 0 0 False False False))
          \<lparr>mode := Collect, time_collecting_start := 0\<rparr>)\<bar> \<le> 15"
  using mission_steer_bounded [OF demo_collect_reachable] .

text \<open>
  C5. In every reachable state the throttle lies within 1.5 times the throttle setpoint
  in either direction (1.5 times is the stuck mode's reverse).
\<close>

theorem mission_throttle_bounded:
  assumes "reachable dt r"
  shows "\<bar>throttle r\<bar> \<le> 3 / 2 * \<bar>throttle_set r\<bar>"
  using reachable_mission_inv [OF assms] by (simp add: mission_inv_def)

theorem mission_throttle_bounded_witness:
  "\<bar>throttle demo_rover\<bar> \<le> 3 / 2 * \<bar>throttle_set demo_rover\<bar>"
  using mission_throttle_bounded [OF reachable.start [OF demo_rover_initial]] .

text \<open>
  C3. The collect mode always has a target: in every reachable state in the collect
  mode the sample angles are present and non-empty, so its steering never takes the mean
  of nothing or of \<open>None\<close>.
\<close>

theorem mission_collect_has_target:
  assumes "reachable dt r" and "mode r = Collect"
  shows "\<exists>angs. rock_angle r = Some angs \<and> angs \<noteq> []"
  using reachable_mission_inv [OF assms(1)] assms(2) by (simp add: mission_inv_def)

theorem mission_collect_has_target_witness:
  "\<exists>angs. rock_angle ((perception_step sat_u8 [[(200, 150, 10)]] [[True]] (telemetry demo_rover (100, 100) 0 0 0 False False False))
          \<lparr>mode := Collect, time_collecting_start := 0\<rparr>) = Some angs \<and> angs \<noteq> []"
  using mission_collect_has_target [OF demo_collect_reachable] by simp

section \<open>The loop from the camera frame\<close>

text \<open>
  C6. The camera loop keeps the vision image well-typed: with a warp that honours its
  output size and frames of the simulator's fixed size, every channel of the vision image
  of every state of a run has that size, so the code's channel writes (which numpy allows
  only between arrays of one shape) are always between equal shapes.
\<close>

theorem camera_runs_wf_vision:
  assumes "cv2_contract cv" and "camera_reachable cv dt rows cols r"
  shows "wf_vision rows cols r"
  using assms(2)
proof (induction rule: camera_reachable.induct)
  case (step r img p yw v t ns pu ack r')
  let ?q = "perception_camera cv dt img (telemetry r p yw v t ns pu ack)"
  have "wf_vision rows cols (telemetry r p yw v t ns pu ack)"
    using step.IH by (simp add: wf_vision_def)
  then have "wf_vision rows cols ?q"
    using perception_camera_wf_vision [OF assms(1) step.hyps(2)] by blast
  moreover have "ctrl_frame ?q r'"
    using step.hyps(3) by (simp add: camera_tick_def decision_step_frame)
  ultimately show ?case by (simp add: wf_vision_ctrl_frame)
qed

theorem camera_runs_wf_vision_witness:
  "cv2_contract cv2_blank \<and> wf_vision 1 2 (demo_rover\<lparr>vision_image := (\<lambda>c. [[0, 0]])\<rparr>)"
proof -
  have "camera_reachable cv2_blank sat_u8 1 2 (demo_rover\<lparr>vision_image := (\<lambda>c. [[0, 0]])\<rparr>)"
    by (rule camera_reachable.start)
       (simp_all add: initial_state_def demo_rover_def sat_u8_def np_clip_def wf_vision_def wf_image_def)
  with camera_runs_wf_vision [OF cv2_blank_contract] cv2_blank_contract show ?thesis by blast
qed

end
